theory Spec2Isabelle
  imports Complex_Main
begin

section \<open>Data model\<close>

text \<open>
  Identifiers (Mongo ObjectIds) are natural numbers and \<open>.equals\<close> is equality; a
  \<open>Date\<close> is its number of milliseconds, an integer. Coordinates are rationals and
  severity is an integer (the validators also admit fractional numbers, which no
  property below tells apart). A value that JavaScript leaves \<open>undefined\<close> is \<open>None\<close>.
  A string is a list of characters below U+0100, one \<open>char\<close> for each UTF-16 code unit,
  so \<open>length\<close> is JavaScript's \<open>length\<close>. A request field that the code treats as a
  string is a string here; other JSON values in its place are outside the model.
\<close>

type_synonym oid = nat
type_synonym date = int

datatype jsval = JStr string | JNum int | JBool bool | JId oid | JDate date
  | JList "jsval list" | JUndefined

type_synonym jsobj = "(string \<times> jsval) list"

text \<open>An element of \<open>editHistory\<close> (Report.js, lines 155-164): \<open>{editedAt, changes}\<close>.\<close>

record historyEntry =
  h_editedAt :: date
  h_changes :: jsobj

text \<open>
  The report document of Report.js. \<open>moderatorNotes\<close> and \<open>editHistory\<close> are declared
  with \<open>select: false\<close>: in a loaded document they are present only when the query
  asked for them, so both are options here, and \<open>editHistory = None\<close> is the document
  whose history path was not loaded (the stored document always carries a list).
  Of the two timestamps that the schema option keeps, \<open>createdAt\<close> is a field;
  \<open>updatedAt\<close>, which no handler of the report lifecycle reads, is left out.
\<close>

record report =
  rid :: oid
  reporterId :: oid
  campusId :: oid
  category :: string
  severity :: int
  title :: string
  description :: string
  coordinates :: "rat list"
  mediaUrls :: "string list"
  isAnonymous :: bool
  status :: string
  resolvedBy :: "oid option"
  resolvedAt :: "date option"
  moderatorNotes :: "string option"
  assignedTo :: "oid option"
  confirms :: "oid list"
  disputes :: "oid list"
  commentsCount :: int
  viewsCount :: int
  spamReports :: "oid list"
  isSpam :: bool
  isEdited :: bool
  editedAt :: "date option"
  editHistory :: "historyEntry list option"
  createdAt :: date

record user =
  uid :: oid
  role :: string
  u_campusId :: oid
  isVerified :: bool

text \<open>The campus settings of the Campus schema that concern reports.\<close>

record campus =
  cid :: oid
  minSeverityForPush :: int
  reportsPerHour :: int

record comment =
  c_id :: oid
  c_reportId :: oid
  c_userId :: oid
  c_content :: string
  c_isAnonymous :: bool

text \<open>AuditLog.js: \<open>logAction\<close> stores the entry as given; payload defaults to \<open>{}\<close>, changes to null.\<close>

record auditLog =
  a_actorId :: oid
  a_action :: string
  a_entityType :: string
  a_entityId :: oid
  a_payload :: jsobj
  a_changes :: "(jsobj \<times> jsobj) option"

record notification =
  n_userId :: oid
  n_reportId :: oid
  n_type :: string
  n_title :: string
  n_message :: string
  n_data :: jsobj
  n_priority :: string

datatype room = CampusRoom oid | ReportRoom oid | ModeratorRoom oid | AdminRoom oid

datatype event =
    NewReport room report
  | ReportUpdate room oid jsobj
  | NewComment room oid comment

datatype logLine =
    HighSeverityQueued oid
  | EmittedNewReport oid
  | EmittedReportUpdate oid
  | EmittedNewComment oid
  | ErrorLine string

text \<open>
  Everything the handlers read or write: the collections, the Socket.io hub
  (\<open>None\<close> while it is not initialised) and the console.
\<close>

record world =
  reports :: "report list"
  users :: "user list"
  campuses :: "campus list"
  comments :: "comment list"
  auditLogs :: "auditLog list"
  notifications :: "notification list"
  io :: "event list option"
  console :: "logLine list"

text \<open>
  The exported \<open>env\<close> object (config/env.js), as far as the handlers read it. The
  numeric entries come from \<open>parseInt\<close>: \<open>None\<close> is \<open>NaN\<close>.
\<close>

record env =
  nodeEnv :: string
  rateLimit_reportsPerHour :: "int option"
  notifications_minSeverityForPush :: "int option"

text \<open>The values \<open>env\<close> takes when no environment variable is set.\<close>

definition defaultEnv :: env where
  "defaultEnv = \<lparr>nodeEnv = ''development'', rateLimit_reportsPerHour = Some 5,
     notifications_minSeverityForPush = Some 4\<rparr>"

text \<open>Request bodies and query objects, one record per endpoint.\<close>

record createBody =
  cb_category :: string
  cb_severity :: int
  cb_title :: string
  cb_description :: string
  cb_location :: "rat list option"
  cb_mediaUrls :: "string list"
  cb_isAnonymous :: bool

record editBody =
  b_title :: "string option"
  b_description :: "string option"
  b_category :: "string option"
  b_severity :: "int option"
  b_mediaUrls :: "string list option"

record moderationBody =
  m_status :: "string option"
  m_moderatorNotes :: "string option"
  m_assignedTo :: "oid option"

record nearbyQuery =
  q_lat :: "rat option"
  q_lon :: "rat option"
  q_radius :: "int option"
  q_category :: "string option"
  q_severity :: "int option"
  q_status :: "string option"
  q_since :: "date option"
  q_limit :: "nat option"

record filters =
  f_category :: "string option"
  f_severity :: "int option"
  f_status :: "string option"
  f_since :: "date option"

text \<open>The uniform envelope \<open>{success, message}\<close> with its HTTP status.\<close>

record response =
  code :: nat
  success :: bool
  message :: string

definition reply :: "nat \<Rightarrow> bool \<Rightarrow> string \<Rightarrow> response" where
  "reply c s m = \<lparr>code = c, success = s, message = m\<rparr>"

section \<open>The store\<close>

text \<open>
  \<open>Report.findById(id)\<close> returns the first document with that id, without the
  \<open>select: false\<close> paths unless the query adds them (\<open>.select("+moderatorNotes")\<close>).
  \<open>save\<close> writes the loaded document back; a path that was not loaded keeps its
  stored value.
\<close>

definition project :: "string list \<Rightarrow> report \<Rightarrow> report" where
  "project sel r = r
     \<lparr>moderatorNotes := (if ''+moderatorNotes'' \<in> set sel then moderatorNotes r else None),
      editHistory := (if ''+editHistory'' \<in> set sel then editHistory r else None)\<rparr>"

definition findById :: "report list \<Rightarrow> oid \<Rightarrow> string list \<Rightarrow> report option" where
  "findById rs i sel = map_option (project sel) (find (\<lambda>r. rid r = i) rs)"

definition persist :: "report \<Rightarrow> report \<Rightarrow> report" where
  "persist stored doc = doc
     \<lparr>moderatorNotes := (case moderatorNotes doc of None \<Rightarrow> moderatorNotes stored | Some n \<Rightarrow> Some n),
      editHistory := (case editHistory doc of None \<Rightarrow> editHistory stored | Some h \<Rightarrow> Some h)\<rparr>"

definition save :: "report \<Rightarrow> world \<Rightarrow> world" where
  "save doc w = w\<lparr>reports := map (\<lambda>r. if rid r = rid doc then persist r doc else r) (reports w)\<rparr>"

definition logAction :: "auditLog \<Rightarrow> world \<Rightarrow> world" where
  "logAction a w = w\<lparr>auditLogs := auditLogs w @ [a]\<rparr>"

definition createNotification :: "notification \<Rightarrow> world \<Rightarrow> world" where
  "createNotification n w = w\<lparr>notifications := notifications w @ [n]\<rparr>"

section \<open>Spam flags\<close>

text \<open>
  \<open>reportSpam\<close> (reports controller, lines 590-636). The Mongoose array's \<open>includes\<close>
  compares ObjectIds by value.
\<close>

definition reportSpam :: "user \<Rightarrow> oid \<Rightarrow> world \<Rightarrow> response \<times> world" where
  "reportSpam u i w =
     (case findById (reports w) i [] of
        None \<Rightarrow> (reply 404 False ''Report not found'', w)
      | Some report \<Rightarrow>
          let (flaggedDoc, w1) =
                (if uid u \<notin> set (spamReports report)
                 then (let r = report\<lparr>spamReports := spamReports report @ [uid u]\<rparr>
                       in (r, save r w))
                 else (report, w));
              w2 = logAction \<lparr>a_actorId = uid u, a_action = ''report_spam'',
                     a_entityType = ''report'', a_entityId = rid flaggedDoc,
                     a_payload = [], a_changes = None\<rparr> w1;
              w3 = (if 5 \<le> length (spamReports flaggedDoc) \<and> \<not> isSpam flaggedDoc
                    then save (flaggedDoc\<lparr>isSpam := True, status := ''spam''\<rparr>) w2
                    else w2)
          in (reply 200 True ''Spam report submitted successfully'', w3))"

text \<open>What one call of \<open>reportSpam\<close> by \<open>a\<close> does to the loaded document.\<close>

definition flagged :: "oid \<Rightarrow> report \<Rightarrow> report" where
  "flagged a r =
     (let r1 = (if a \<notin> set (spamReports r) then r\<lparr>spamReports := spamReports r @ [a]\<rparr> else r)
      in if 5 \<le> length (spamReports r1) \<and> \<not> isSpam r1
         then r1\<lparr>isSpam := True, status := ''spam''\<rparr> else r1)"

section \<open>Socket.io fan-out\<close>

text \<open>The emitters of the socket service: each returns at once while \<open>io\<close> is not set.\<close>

definition emitNewReport :: "oid \<Rightarrow> report \<Rightarrow> world \<Rightarrow> world" where
  "emitNewReport campus r w =
     (case io w of
        None \<Rightarrow> w
      | Some evs \<Rightarrow> w\<lparr>io := Some (evs @ [NewReport (CampusRoom campus) r]),
                      console := console w @ [EmittedNewReport campus]\<rparr>)"

definition emitReportUpdate :: "oid \<Rightarrow> oid \<Rightarrow> jsobj \<Rightarrow> world \<Rightarrow> world" where
  "emitReportUpdate campus reportId updates w =
     (case io w of
        None \<Rightarrow> w
      | Some evs \<Rightarrow> w\<lparr>io := Some (evs @ [ReportUpdate (CampusRoom campus) reportId updates,
                                       ReportUpdate (ReportRoom reportId) reportId updates]),
                      console := console w @ [EmittedReportUpdate reportId]\<rparr>)"

definition emitNewComment :: "oid \<Rightarrow> comment \<Rightarrow> world \<Rightarrow> world" where
  "emitNewComment reportId c w =
     (case io w of
        None \<Rightarrow> w
      | Some evs \<Rightarrow> w\<lparr>io := Some (evs @ [NewComment (ReportRoom reportId) reportId c]),
                      console := console w @ [EmittedNewComment reportId]\<rparr>)"

text \<open>
  A \<open>catch\<close> block: \<open>console.error(label, error)\<close>, and the answer is 500 with the
  handler's message.
\<close>

definition failed :: "string \<Rightarrow> string \<Rightarrow> world \<Rightarrow> response \<times> world" where
  "failed label m w = (reply 500 False m, w\<lparr>console := console w @ [ErrorLine label]\<rparr>)"

section \<open>Schema enumerations and validators\<close>

definition categories :: "string list" where
  "categories = [''safety'', ''emergency'', ''theft'', ''suspicious'', ''suspicious_activity'',
     ''harassment'', ''vandalism'', ''medical'', ''fire'', ''hazard'', ''assault'', ''other'']"

definition statuses :: "string list" where
  "statuses = [''reported'', ''verified'', ''investigating'', ''resolved'', ''invalid'', ''spam'']"

definition validCoordinates :: "rat list \<Rightarrow> bool" where
  "validCoordinates coords =
     (case coords of
        [lon, lat] \<Rightarrow> - 180 \<le> lon \<and> lon \<le> 180 \<and> - 90 \<le> lat \<and> lat \<le> 90
      | _ \<Rightarrow> False)"

text \<open>
  \<open>String.prototype.trim\<close> removes white space and line terminators at both ends; below
  U+0100 these are tab, line feed, vertical tab, form feed, carriage return, space and
  the no-break space U+00A0.
\<close>

definition isSpace :: "char \<Rightarrow> bool" where
  "isSpace c =
     (c \<in> set [CHR '' '', CHR 0x09, CHR 0x0A, CHR 0x0B, CHR 0x0C, CHR 0x0D, CHR 0xA0])"

definition trim :: "string \<Rightarrow> string" where
  "trim s = rev (dropWhile isSpace (rev (dropWhile isSpace s)))"

text \<open>
  The validators of the report schema that \<open>create\<close> and \<open>save\<close> run on the paths a
  handler has set; a failure is a ValidationError, which the handler's \<open>catch\<close> turns
  into a 500.
\<close>

definition contentValid :: "report \<Rightarrow> bool" where
  "contentValid r =
     (category r \<in> set categories \<and> 1 \<le> severity r \<and> severity r \<le> 5 \<and>
      title r \<noteq> [] \<and> length (title r) \<le> 200 \<and>
      description r \<noteq> [] \<and> length (description r) \<le> 2000 \<and>
      validCoordinates (coordinates r) \<and> length (mediaUrls r) \<le> 10)"

definition moderationValid :: "report \<Rightarrow> bool" where
  "moderationValid r =
     (status r \<in> set statuses \<and>
      (case moderatorNotes r of None \<Rightarrow> True | Some n \<Rightarrow> length n \<le> 1000))"

section \<open>Instance methods and virtuals of the report\<close>

definition confirmCount :: "report \<Rightarrow> nat" where
  "confirmCount r = length (confirms r)"

definition disputeCount :: "report \<Rightarrow> nat" where
  "disputeCount r = length (disputes r)"

definition netVotes :: "report \<Rightarrow> int" where
  "netVotes r = int (length (confirms r)) - int (length (disputes r))"

text \<open>\<open>canEdit\<close> (Report.js, lines 214-222); \<open>now\<close> is the value of \<open>new Date()\<close>.\<close>

definition canEdit :: "report \<Rightarrow> oid \<Rightarrow> int \<Rightarrow> date \<Rightarrow> bool" where
  "canEdit r userId timeLimit now =
     (if status r \<noteq> ''reported'' then False
      else if reporterId r \<noteq> userId then False
      else now - createdAt r < timeLimit)"

text \<open>\<open>addVote\<close> (Report.js, lines 224-241), before its \<open>save\<close>.\<close>

definition addVote :: "report \<Rightarrow> oid \<Rightarrow> string \<Rightarrow> report" where
  "addVote r userId voteType =
     (if voteType = ''confirm''
      then (let r1 = r\<lparr>disputes := filter (\<lambda>x. x \<noteq> userId) (disputes r)\<rparr>
            in if \<not> (\<exists>x \<in> set (confirms r1). x = userId)
               then r1\<lparr>confirms := confirms r1 @ [userId]\<rparr> else r1)
      else (let r1 = r\<lparr>confirms := filter (\<lambda>x. x \<noteq> userId) (confirms r)\<rparr>
            in if \<not> (\<exists>x \<in> set (disputes r1). x = userId)
               then r1\<lparr>disputes := disputes r1 @ [userId]\<rparr> else r1))"

definition canModerate :: "user \<Rightarrow> bool" where
  "canModerate u = (role u \<in> set [''moderator'', ''admin'', ''super-admin''])"


section \<open>Predicates on stored reports\<close>

text \<open>No user is in both vote lists of the report.\<close>

definition votesDisjoint :: "report \<Rightarrow> bool" where
  "votesDisjoint r = (set (confirms r) \<inter> set (disputes r) = {})"

text \<open>A report in status \<open>resolved\<close> carries its resolver and resolution time.\<close>

definition resolvedStamped :: "report \<Rightarrow> bool" where
  "resolvedStamped r = (status r = ''resolved'' \<longrightarrow> resolvedBy r \<noteq> None \<and> resolvedAt r \<noteq> None)"

text \<open>Every stored report satisfies it.\<close>

definition allStamped :: "world \<Rightarrow> bool" where
  "allStamped w = (\<forall>r \<in> set (reports w). resolvedStamped r)"

section \<open>JavaScript truthiness\<close>

definition truthyStr :: "string option \<Rightarrow> bool" where
  "truthyStr v = (case v of None \<Rightarrow> False | Some s \<Rightarrow> s \<noteq> [])"

definition truthyNum :: "int option \<Rightarrow> bool" where
  "truthyNum v = (case v of None \<Rightarrow> False | Some n \<Rightarrow> n \<noteq> 0)"

text \<open>\<open>a || b\<close> with \<open>a\<close> a possibly undefined string or number.\<close>

definition orStr :: "string option \<Rightarrow> string \<Rightarrow> string" where
  "orStr v d = (case v of None \<Rightarrow> d | Some s \<Rightarrow> if s \<noteq> [] then s else d)"

definition orNum :: "int option \<Rightarrow> int \<Rightarrow> int" where
  "orNum v d = (case v of None \<Rightarrow> d | Some n \<Rightarrow> if n \<noteq> 0 then n else d)"

section \<open>Handlers of the reports controller\<close>

text \<open>\<open>voteReport\<close> (lines 439-489).\<close>

definition voteReport :: "user \<Rightarrow> oid \<Rightarrow> string \<Rightarrow> world \<Rightarrow> response \<times> world" where
  "voteReport u i vote w =
     (if vote \<notin> set [''confirm'', ''dispute'']
      then (reply 400 False (''Vote must be 'confirm' or 'dispute'' @ [CHR 0x27]), w)
      else case findById (reports w) i [] of
        None \<Rightarrow> (reply 404 False ''Report not found'', w)
      | Some report \<Rightarrow>
          let w1 = save (addVote report (uid u) vote) w;
              w2 = logAction \<lparr>a_actorId = uid u, a_action = ''vote_report'',
                     a_entityType = ''report'', a_entityId = rid report,
                     a_payload = [(''vote'', JStr vote)], a_changes = None\<rparr> w1
          in (reply 200 True ''Vote recorded successfully'', w2))"



text \<open>
  \<open>updateReport\<close> (lines 288-382). \<open>applyEdit\<close> is its in-memory part, lines 310-337:
  the assignments (the schema trims \<open>title\<close> on assignment), the edit stamps, and the push
  onto \<open>editHistory\<close>, which throws a TypeError (\<open>None\<close>) when the loaded document has
  no \<open>editHistory\<close>. The pushed entry reads \<open>report.title\<close> and its siblings after the
  assignments.
\<close>

definition applyEdit :: "editBody \<Rightarrow> date \<Rightarrow> report \<Rightarrow> report option" where
  "applyEdit b now report =
     (let r1 = (if truthyStr (b_title b) then report\<lparr>title := trim (the (b_title b))\<rparr> else report);
          r2 = (if truthyStr (b_description b) then r1\<lparr>description := the (b_description b)\<rparr> else r1);
          r3 = (if truthyStr (b_category b) then r2\<lparr>category := the (b_category b)\<rparr> else r2);
          r4 = (if truthyNum (b_severity b) then r3\<lparr>severity := the (b_severity b)\<rparr> else r3);
          r5 = (case b_mediaUrls b of Some m \<Rightarrow> r4\<lparr>mediaUrls := m\<rparr> | None \<Rightarrow> r4);
          r6 = r5\<lparr>isEdited := True, editedAt := Some now\<rparr>
      in case editHistory r6 of
           None \<Rightarrow> None
         | Some h \<Rightarrow> Some (r6\<lparr>editHistory := Some (h @
             [\<lparr>h_editedAt = now,
               h_changes = [(''title'', JStr (orStr (b_title b) (title r6))),
                            (''description'', JStr (orStr (b_description b) (description r6))),
                            (''category'', JStr (orStr (b_category b) (category r6))),
                            (''severity'', JNum (orNum (b_severity b) (severity r6)))]\<rparr>])\<rparr>))"

definition updateReport :: "user \<Rightarrow> oid \<Rightarrow> editBody \<Rightarrow> date \<Rightarrow> world \<Rightarrow> response \<times> world" where
  "updateReport u i b now w =
     (case findById (reports w) i [] of
        None \<Rightarrow> (reply 404 False ''Report not found'', w)
      | Some report \<Rightarrow>
          if \<not> canEdit report (uid u) (30 * 60 * 1000) now
          then (reply 403 False ''Cannot edit report (time limit exceeded or not owner)'', w)
          else
            let oldValues = [(''title'', JStr (title report)),
                             (''description'', JStr (description report)),
                             (''category'', JStr (category report)),
                             (''severity'', JNum (severity report))]
            in case applyEdit b now report of
                 None \<Rightarrow> failed ''Update report error:'' ''Failed to update report'' w
               | Some r \<Rightarrow>
                   if \<not> contentValid r then failed ''Update report error:'' ''Failed to update report'' w
                   else
                     let w1 = save r w;
                         w2 = emitReportUpdate (u_campusId u) (rid r)
                                [(''title'', JStr (title r)), (''description'', JStr (description r)),
                                 (''category'', JStr (category r)), (''severity'', JNum (severity r)),
                                 (''mediaUrls'', JList (map JStr (mediaUrls r))),
                                 (''isEdited'', JBool True),
                                 (''editedAt'', (case editedAt r of None \<Rightarrow> JUndefined | Some d \<Rightarrow> JDate d))] w1;
                         w3 = logAction \<lparr>a_actorId = uid u, a_action = ''edit_report'',
                                a_entityType = ''report'', a_entityId = rid r, a_payload = [],
                                a_changes = Some (oldValues,
                                  [(''title'', JStr (title r)), (''description'', JStr (description r)),
                                   (''category'', JStr (category r)),
                                   (''severity'', JNum (severity r))])\<rparr> w2
                     in (reply 200 True ''Report updated successfully'', w3))"

text \<open>
  \<open>createReport\<close> (lines 212-282). The new document gets the schema defaults and an
  unused id; \<open>Report.create\<close> runs the schema validators.
\<close>

definition freshId :: "report list \<Rightarrow> oid" where
  "freshId rs = Suc (fold max (map rid rs) 0)"

definition severityReaches :: "int \<Rightarrow> int option \<Rightarrow> bool" where
  "severityReaches sev threshold = (case threshold of None \<Rightarrow> False | Some t \<Rightarrow> t \<le> sev)"

definition createReport :: "env \<Rightarrow> user \<Rightarrow> createBody \<Rightarrow> date \<Rightarrow> world \<Rightarrow> response \<times> world" where
  "createReport e u b now w =
     (case cb_location b of
        None \<Rightarrow> (reply 400 False ''Valid location (GeoJSON Point) is required'', w)
      | Some coords \<Rightarrow>
          if length coords \<noteq> 2
          then (reply 400 False ''Valid location (GeoJSON Point) is required'', w)
          else
            let report = \<lparr>rid = freshId (reports w), reporterId = uid u, campusId = u_campusId u,
                   category = cb_category b, severity = cb_severity b,
                   title = trim (cb_title b), description = cb_description b,
                   coordinates = coords, mediaUrls = cb_mediaUrls b,
                   isAnonymous = cb_isAnonymous b, status = ''reported'',
                   resolvedBy = None, resolvedAt = None, moderatorNotes = None,
                   assignedTo = None, confirms = [], disputes = [], commentsCount = 0,
                   viewsCount = 0, spamReports = [], isSpam = False, isEdited = False,
                   editedAt = None, editHistory = Some [], createdAt = now\<rparr>
            in if \<not> contentValid report
               then failed ''Create report error:'' ''Failed to create report'' w
               else
                 let w1 = w\<lparr>reports := reports w @ [report]\<rparr>;
                     w2 = logAction \<lparr>a_actorId = uid u, a_action = ''create_report'',
                            a_entityType = ''report'', a_entityId = rid report,
                            a_payload = [(''category'', JStr (cb_category b)),
                                         (''severity'', JNum (cb_severity b)),
                                         (''isAnonymous'', JBool (cb_isAnonymous b))],
                            a_changes = None\<rparr> w1;
                     w3 = emitNewReport (u_campusId u) report w2;
                     w4 = (if severityReaches (cb_severity b) (notifications_minSeverityForPush e)
                           then w3\<lparr>console := console w3 @ [HighSeverityQueued (rid report)]\<rparr>
                           else w3)
                 in (reply 201 True ''Report created successfully'', w4))"

text \<open>
  The reports for which \<open>createReport\<close> has written its "queuing notifications" line,
  the only signal towards push delivery that the handler gives.
\<close>

fun pushSignals :: "logLine list \<Rightarrow> oid list" where
  "pushSignals [] = []"
| "pushSignals (HighSeverityQueued i # ls) = i # pushSignals ls"
| "pushSignals (l # ls) = pushSignals ls"

section \<open>The moderation controller\<close>

text \<open>
  \<open>updateReportStatus\<close> (moderation controller, lines 149-242). The route has no body
  validation, so the schema validators at \<open>save\<close> are the only check of \<open>status\<close> and
  \<open>moderatorNotes\<close>. The notification is created after a successful \<open>save\<close>, when the
  status is one of the schema's, so its own validators (lengths, type) always pass.
\<close>

definition updateReportStatus :: "user \<Rightarrow> oid \<Rightarrow> moderationBody \<Rightarrow> date \<Rightarrow> world \<Rightarrow> response \<times> world" where
  "updateReportStatus u i b now w =
     (case findById (reports w) i [''+moderatorNotes''] of
        None \<Rightarrow> (reply 404 False ''Report not found'', w)
      | Some report \<Rightarrow>
          if campusId report \<noteq> u_campusId u \<and> role u \<noteq> ''super-admin''
          then (reply 403 False ''Access denied to this campus'', w)
          else
            let oldStatus = status report;
                r1 = (if truthyStr (m_status b)
                      then (let r = report\<lparr>status := the (m_status b)\<rparr>
                            in if m_status b = Some ''resolved''
                               then r\<lparr>resolvedBy := Some (uid u), resolvedAt := Some now\<rparr>
                               else r)
                      else report);
                r2 = (if truthyStr (m_moderatorNotes b)
                      then r1\<lparr>moderatorNotes := m_moderatorNotes b\<rparr> else r1);
                r3 = (case m_assignedTo b of
                        None \<Rightarrow> r2
                      | Some a \<Rightarrow>
                          (case find (\<lambda>x. uid x = a) (users w) of
                             None \<Rightarrow> r2
                           | Some assignedUser \<Rightarrow>
                               if role assignedUser = ''security''
                               then r2\<lparr>assignedTo := Some a\<rparr> else r2))
            in if \<not> moderationValid r3
               then failed ''Update report status error:'' ''Failed to update report'' w
               else
                 let w1 = save r3 w;
                     w2 = logAction \<lparr>a_actorId = uid u,
                            a_action = (if m_status b = Some ''verified'' then ''verify_report''
                                        else if m_status b = Some ''invalid'' then ''invalidate_report''
                                        else ''resolve_report''),
                            a_entityType = ''report'', a_entityId = rid r3, a_payload = [],
                            a_changes = Some ([(''status'', JStr oldStatus)],
                                              [(''status'', JStr (status r3))])\<rparr> w1;
                     w3 = (if oldStatus \<noteq> status r3 \<and> reporterId r3 \<noteq> uid u
                           then createNotification \<lparr>n_userId = reporterId r3, n_reportId = rid r3,
                                  n_type = ''moderator_action'', n_title = ''Report Status Updated'',
                                  n_message = ''Your report has been '' @
                                    (case m_status b of None \<Rightarrow> ''undefined'' | Some s \<Rightarrow> s),
                                  n_data = [],
                                  n_priority = (if m_status b = Some ''resolved'' then ''medium''
                                                else ''low'')\<rparr> w2
                           else w2);
                     w4 = emitReportUpdate (u_campusId u) (rid r3)
                            [(''status'', JStr (status r3)),
                             (''moderatorNotes'', (case moderatorNotes r3 of None \<Rightarrow> JUndefined | Some n \<Rightarrow> JStr n)),
                             (''resolvedBy'', (case resolvedBy r3 of None \<Rightarrow> JUndefined | Some x \<Rightarrow> JId x)),
                             (''resolvedAt'', (case resolvedAt r3 of None \<Rightarrow> JUndefined | Some d \<Rightarrow> JDate d)),
                             (''assignedTo'', (case assignedTo r3 of None \<Rightarrow> JUndefined | Some x \<Rightarrow> JId x))] w3
                 in (reply 200 True ''Report updated successfully'', w4))"

text \<open>The document that \<open>updateReportStatus\<close> saves, from the loaded one (lines 171-192).\<close>

definition moderated :: "user \<Rightarrow> moderationBody \<Rightarrow> date \<Rightarrow> user list \<Rightarrow> report \<Rightarrow> report" where
  "moderated u b now us report =
     (let r1 = (if truthyStr (m_status b)
                then (let r = report\<lparr>status := the (m_status b)\<rparr>
                      in if m_status b = Some ''resolved''
                         then r\<lparr>resolvedBy := Some (uid u), resolvedAt := Some now\<rparr>
                         else r)
                else report);
          r2 = (if truthyStr (m_moderatorNotes b)
                then r1\<lparr>moderatorNotes := m_moderatorNotes b\<rparr> else r1)
      in (case m_assignedTo b of
            None \<Rightarrow> r2
          | Some a \<Rightarrow>
              (case find (\<lambda>x. uid x = a) us of
                 None \<Rightarrow> r2
               | Some assignedUser \<Rightarrow>
                   if role assignedUser = ''security''
                   then r2\<lparr>assignedTo := Some a\<rparr> else r2)))"

text \<open>\<open>requireRole\<close> (auth.js) and the moderation router, which puts it before every route.\<close>

definition requireRole :: "string list \<Rightarrow> user \<Rightarrow> response option" where
  "requireRole roles u =
     (if role u \<notin> set roles then Some (reply 403 False ''Insufficient permissions'') else None)"

definition patchModerationReport :: "user \<Rightarrow> oid \<Rightarrow> moderationBody \<Rightarrow> date \<Rightarrow> world \<Rightarrow> response \<times> world" where
  "patchModerationReport u i b now w =
     (case requireRole [''moderator'', ''admin'', ''super-admin''] u of
        Some r \<Rightarrow> (r, w)
      | None \<Rightarrow> updateReportStatus u i b now w)"

section \<open>Nearby search\<close>

text \<open>
  \<open>findNearby\<close> (Report.js, lines 261-293). The \<open>$near\<close> test of the store is the
  parameter \<open>near centre maxDistance point\<close>; the query is a conjunction of its
  entries, and the result is sorted by \<open>createdAt\<close>, newest first.
\<close>

definition findNearby ::
  "(rat list \<Rightarrow> int \<Rightarrow> rat list \<Rightarrow> bool) \<Rightarrow> report list \<Rightarrow> oid \<Rightarrow> rat \<Rightarrow> rat \<Rightarrow> int \<Rightarrow> filters
     \<Rightarrow> report list" where
  "findNearby near rs campus longitude latitude radiusMeters fl =
     rev (sort_key createdAt (map (project [])
       (filter (\<lambda>r.
          campusId r = campus \<and>
          near [longitude, latitude] radiusMeters (coordinates r) \<and>
          (truthyStr (f_category fl) \<longrightarrow> category r = the (f_category fl)) \<and>
          (truthyNum (f_severity fl) \<longrightarrow> the (f_severity fl) \<le> severity r) \<and>
          (if truthyStr (f_status fl) then status r = the (f_status fl)
           else status r \<in> set [''reported'', ''verified'', ''investigating'', ''resolved'']) \<and>
          (case f_since fl of None \<Rightarrow> True | Some t \<Rightarrow> t \<le> createdAt r)) rs)))"

text \<open>
  \<open>getNearbyReports\<close> (reports controller, lines 12-88), on the query as the validation
  middleware leaves it (numbers converted); \<open>!lat\<close> holds for a missing value and for 0.
\<close>

definition getNearbyReports ::
  "(rat list \<Rightarrow> int \<Rightarrow> rat list \<Rightarrow> bool) \<Rightarrow> user \<Rightarrow> nearbyQuery \<Rightarrow> world \<Rightarrow> response \<times> report list" where
  "getNearbyReports near u q w =
     (if q_lat q = None \<or> q_lat q = Some 0 \<or> q_lon q = None \<or> q_lon q = Some 0
      then (reply 400 False ''Latitude and longitude are required'', [])
      else
        let fl = \<lparr>f_category = (if truthyStr (q_category q) then q_category q else None),
                   f_severity = (if truthyNum (q_severity q) then q_severity q else None),
                   f_status = (if truthyStr (q_status q) then q_status q else None),
                   f_since = q_since q\<rparr>;
            found = take (case q_limit q of None \<Rightarrow> 100 | Some n \<Rightarrow> n)
                      (findNearby near (reports w) (u_campusId u) (the (q_lon q)) (the (q_lat q))
                         (case q_radius q of None \<Rightarrow> 1000 | Some r \<Rightarrow> r) fl)
        in (reply 200 True [], found))"

section \<open>The route \<open>POST /reports\<close>\<close>

text \<open>\<open>requireVerifiedEmail\<close> (auth.js, lines 177-193); \<open>None\<close> is \<open>next()\<close>.\<close>

definition requireVerifiedEmail :: "user option \<Rightarrow> response option" where
  "requireVerifiedEmail ru =
     (case ru of
        None \<Rightarrow> Some (reply 401 False ''Authentication required'')
      | Some u \<Rightarrow>
          if \<not> isVerified u then Some (reply 403 False ''Email verification required'')
          else None)"

text \<open>The \<open>max\<close> option of \<open>reportLimiter\<close> (rate limiter, line 32), fixed when the module loads.\<close>

definition reportLimiterMax :: "env \<Rightarrow> int" where
  "reportLimiterMax e =
     (if nodeEnv e = ''development'' then 100
      else (case rateLimit_reportsPerHour e of
              None \<Rightarrow> 5
            | Some n \<Rightarrow> if n \<noteq> 0 then n else 5))"

text \<open>
  The limiter that \<open>rateLimit({windowMs, max})\<close> builds, with the library's memory
  store: for each client key it keeps a counter and the time at which the key's
  window ends. A request of a key that has no window, or whose window has ended, opens
  a window of \<open>windowMs\<close> from now with the counter at 0; the request then raises the
  counter, and it is refused with 429 when the counter is above \<open>max\<close>.
  \<open>reportLimiter\<close> passes no key generator, so the key is the library's default, the
  client address, and its \<open>windowMs\<close> is one hour.
\<close>

type_synonym limiterStore = "string \<Rightarrow> (nat \<times> date) option"

definition liveWindow :: "int \<Rightarrow> string \<Rightarrow> date \<Rightarrow> limiterStore \<Rightarrow> nat \<times> date" where
  "liveWindow windowMs key now store =
     (case store key of
        None \<Rightarrow> (0, now + windowMs)
      | Some (n, reset) \<Rightarrow> if reset \<le> now then (0, now + windowMs) else (n, reset))"

definition rateLimit ::
  "int \<Rightarrow> int \<Rightarrow> string \<Rightarrow> date \<Rightarrow> limiterStore \<Rightarrow> response option \<times> limiterStore" where
  "rateLimit windowMs mx key now store =
     (let (n, reset) = liveWindow windowMs key now store
      in (if mx < int (Suc n)
          then Some (reply 429 False
                 ''You have reached the maximum number of reports per hour. Please try again later.'')
          else None,
          store(key \<mapsto> (Suc n, reset))))"

text \<open>
  \<open>createReportSchema\<close> (validateReports.js, lines 28-61); \<open>uri\<close> is Joi's URI test. The
  middleware hands on the converted value, with \<open>title\<close> and \<open>description\<close> trimmed.
\<close>

definition createReportSchema :: "(string \<Rightarrow> bool) \<Rightarrow> createBody \<Rightarrow> createBody option" where
  "createReportSchema uri b =
     (if cb_category b \<in> set categories \<and> 1 \<le> cb_severity b \<and> cb_severity b \<le> 5 \<and>
         5 \<le> length (trim (cb_title b)) \<and> length (trim (cb_title b)) \<le> 200 \<and>
         10 \<le> length (trim (cb_description b)) \<and> length (trim (cb_description b)) \<le> 2000 \<and>
         (case cb_location b of None \<Rightarrow> False | Some coords \<Rightarrow> length coords = 2) \<and>
         list_all uri (cb_mediaUrls b) \<and> length (cb_mediaUrls b) \<le> 10
      then Some (b\<lparr>cb_title := trim (cb_title b), cb_description := trim (cb_description b)\<rparr>)
      else None)"

text \<open>
  \<open>router.post("/", authenticate, requireVerifiedEmail, reportLimiter,
  validate(createReportSchema), createReport)\<close>, after \<open>authenticate\<close> has attached the
  user \<open>u\<close>; \<open>ip\<close> is the client address, \<open>now\<close> the time of the request and \<open>store\<close>
  the limiter's memory.
\<close>

definition postReports ::
  "(string \<Rightarrow> bool) \<Rightarrow> env \<Rightarrow> string \<Rightarrow> user \<Rightarrow> createBody \<Rightarrow> date \<Rightarrow> limiterStore \<times> world
     \<Rightarrow> response \<times> limiterStore \<times> world" where
  "postReports uri e ip u b now sw =
     (let (store, w) = sw
      in case requireVerifiedEmail (Some u) of
           Some r \<Rightarrow> (r, store, w)
         | None \<Rightarrow>
             (case rateLimit (60 * 60 * 1000) (reportLimiterMax e) ip now store of
                (Some r, store') \<Rightarrow> (r, store', w)
              | (None, store') \<Rightarrow>
                  (case createReportSchema uri b of
                     None \<Rightarrow> (reply 400 False ''Validation failed'', store', w)
                   | Some b' \<Rightarrow>
                       (let (r, w') = createReport e u b' now w in (r, store', w')))))"

text \<open>The answers to one client's requests, sent by \<open>u\<close> with body \<open>b\<close> at the given times.\<close>

fun postAll ::
  "(string \<Rightarrow> bool) \<Rightarrow> env \<Rightarrow> string \<Rightarrow> user \<Rightarrow> createBody \<Rightarrow> date list \<Rightarrow> limiterStore \<times> world
     \<Rightarrow> response list" where
  "postAll uri e ip u b [] sw = []"
| "postAll uri e ip u b (t # ts) sw =
     (let (r, sw') = postReports uri e ip u b t sw in r # postAll uri e ip u b ts sw')"

section \<open>Sequences of operations\<close>

text \<open>The mutating operations of the report lifecycle, each with its request.\<close>

datatype op =
    Create user createBody date
  | Edit user oid editBody date
  | Retract user oid
  | Vote user oid string
  | Comment user oid "string option" bool
  | FlagSpam user oid
  | ModeratorUpdate user oid moderationBody date



section \<open>Sample data\<close>

text \<open>A campus with its own settings, users of that campus, and a first report.\<close>

definition campusA :: campus where
  "campusA = \<lparr>cid = 1, minSeverityForPush = 2, reportsPerHour = 1\<rparr>"

definition student :: "nat \<Rightarrow> user" where
  "student n = \<lparr>uid = n, role = ''student'', u_campusId = 1, isVerified = True\<rparr>"

definition moderator :: user where
  "moderator = \<lparr>uid = 100, role = ''moderator'', u_campusId = 1, isVerified = True\<rparr>"

definition world0 :: world where
  "world0 = \<lparr>reports = [], users = [moderator], campuses = [campusA], comments = [],
     auditLogs = [], notifications = [], io = Some [], console = []\<rparr>"

definition sampleBody :: createBody where
  "sampleBody = \<lparr>cb_category = ''safety'', cb_severity = 3,
     cb_title = ''Suspicious person near library'',
     cb_description = ''Someone is loitering by the entrance'',
     cb_location = Some [- 12241 / 100, 3778 / 100], cb_mediaUrls = [],
     cb_isAnonymous = False\<rparr>"

text \<open>An edit request that changes the title only.\<close>

definition titleEdit :: editBody where
  "titleEdit = \<lparr>b_title = Some ''Broken street lamp'', b_description = None,
     b_category = None, b_severity = None, b_mediaUrls = None\<rparr>"

text \<open>Moderator requests that set the status.\<close>

definition resolveBody :: moderationBody where
  "resolveBody = \<lparr>m_status = Some ''resolved'', m_moderatorNotes = None, m_assignedTo = None\<rparr>"


text \<open>The report that \<open>student 1\<close> creates from \<open>sampleBody\<close> at time 0 in \<open>world0\<close>.\<close>

definition report1 :: report where
  "report1 = \<lparr>rid = 1, reporterId = 1, campusId = 1, category = ''safety'', severity = 3,
     title = ''Suspicious person near library'',
     description = ''Someone is loitering by the entrance'',
     coordinates = [- 12241 / 100, 3778 / 100], mediaUrls = [], isAnonymous = False,
     status = ''reported'', resolvedBy = None, resolvedAt = None, moderatorNotes = None,
     assignedTo = None, confirms = [], disputes = [], commentsCount = 0, viewsCount = 0,
     spamReports = [], isSpam = False, isEdited = False, editedAt = None,
     editHistory = Some [], createdAt = 0\<rparr>"

definition world1 :: world where
  "world1 = world0\<lparr>reports := [report1]\<rparr>"

text \<open>
  A distance test that accepts every point, a query without filters, and three stored
  reports: one of campus 1, one of campus 2, one marked as spam.
\<close>

definition everywhere :: "rat list \<Rightarrow> int \<Rightarrow> rat list \<Rightarrow> bool" where
  "everywhere centre maxDistance point = True"

definition noFilters :: filters where
  "noFilters = \<lparr>f_category = None, f_severity = None, f_status = None, f_since = None\<rparr>"

definition threeReports :: "report list" where
  "threeReports = [report1, report1\<lparr>rid := 2, campusId := 2\<rparr>,
     report1\<lparr>rid := 3, status := ''spam'', isSpam := True\<rparr>]"

text \<open>
  A URI test that accepts every string, a limiter memory without any window, and a
  production environment with the default limit.
\<close>

definition anyUri :: "string \<Rightarrow> bool" where
  "anyUri s = True"

definition noWindows :: limiterStore where
  "noWindows key = None"

definition productionEnv :: env where
  "productionEnv = \<lparr>nodeEnv = ''production'', rateLimit_reportsPerHour = Some 5,
     notifications_minSeverityForPush = Some 4\<rparr>"

section \<open>Properties of the store\<close>


lemma rid_persist: "rid (persist r d) = rid d"
  by (simp add: persist_def)

lemma find_save:
  "find (\<lambda>r. rid r = i) (reports (save d w)) =
     (if i = rid d then map_option (\<lambda>r. persist r d) (find (\<lambda>r. rid r = i) (reports w))
      else find (\<lambda>r. rid r = i) (reports w))"
proof -
  have "find (\<lambda>r. rid r = i) (map (\<lambda>r. if rid r = rid d then persist r d else r) rs) =
     (if i = rid d then map_option (\<lambda>r. persist r d) (find (\<lambda>r. rid r = i) rs)
      else find (\<lambda>r. rid r = i) rs)" for rs
    by (induction rs) (auto simp: rid_persist)
  then show ?thesis by (simp add: save_def)
qed

lemma findById_rid: "findById rs i sel = Some r \<Longrightarrow> rid r = i"
  by (auto simp: findById_def project_def find_Some_iff)

lemma project_persist_loaded:
  "moderatorNotes d = None \<Longrightarrow> editHistory d = None \<Longrightarrow> project [] (persist r d) = d"
  by (simp add: project_def persist_def)

lemma findById_unselected:
  "findById rs i [] = Some r \<Longrightarrow> moderatorNotes r = None \<and> editHistory r = None"
  by (auto simp: findById_def project_def)

lemma findById_save:
  assumes "findById (reports w) i [] = Some r" "rid d = i" "moderatorNotes d = None" "editHistory d = None"
  shows "findById (reports (save d w)) i [] = Some d"
  using assms by (auto simp: findById_def find_save project_persist_loaded)

lemma reports_logAction [simp]: "reports (logAction a w) = reports w"
  by (simp add: logAction_def)

lemma reportSpam_step:
  assumes "findById (reports w) i [] = Some r"
  shows "findById (reports (snd (reportSpam u i w))) i [] = Some (flagged (uid u) r)"
proof -
  note un = findById_unselected[OF assms] and ri = findById_rid[OF assms]
  show ?thesis
    using assms un ri
    by (auto simp: reportSpam_def flagged_def Let_def findById_save)
qed


section \<open>Spam threshold\<close>


lemma flagged_props:
  assumes "distinct (spamReports r)" "isSpam r \<longleftrightarrow> 5 \<le> length (spamReports r)"
  shows "distinct (spamReports (flagged a r))"
    and "set (spamReports (flagged a r)) = insert a (set (spamReports r))"
    and "isSpam (flagged a r) \<longleftrightarrow> 5 \<le> length (spamReports (flagged a r))"
    and "status (flagged a r) = (if isSpam (flagged a r) \<and> \<not> isSpam r then ''spam'' else status r)"
  using assms by (auto simp: flagged_def Let_def)

lemma flagged_same:
  "a \<in> set (spamReports r) \<Longrightarrow> (isSpam r \<longleftrightarrow> 5 \<le> length (spamReports r)) \<Longrightarrow> flagged a r = r"
  by (auto simp: flagged_def Let_def)

lemma reportSpam_fold:
  assumes "findById (reports w) i [] = Some r"
    and "distinct (spamReports r)"
    and "isSpam r \<longleftrightarrow> 5 \<le> length (spamReports r)"
  shows "\<exists>r'. findById (reports (fold (\<lambda>u w. snd (reportSpam u i w)) us w)) i [] = Some r' \<and>
           distinct (spamReports r') \<and>
           set (spamReports r') = set (spamReports r) \<union> uid ` set us \<and>
           (isSpam r' \<longleftrightarrow> 5 \<le> length (spamReports r')) \<and>
           status r' = (if isSpam r' \<and> \<not> isSpam r then ''spam'' else status r)"
  using assms
proof (induction us arbitrary: w r)
  case Nil
  then show ?case by simp
next
  case (Cons u us)
  let ?r1 = "flagged (uid u) r"
  let ?w1 = "snd (reportSpam u i w)"
  have s: "findById (reports ?w1) i [] = Some ?r1"
    by (rule reportSpam_step[OF Cons.prems(1)])
  note p = flagged_props[OF Cons.prems(2,3), of "uid u"]
  from Cons.IH[OF s p(1) p(3)] obtain r' where
    r': "findById (reports (fold (\<lambda>u w. snd (reportSpam u i w)) us ?w1)) i [] = Some r'"
      "distinct (spamReports r')"
      "set (spamReports r') = set (spamReports ?r1) \<union> uid ` set us"
      "isSpam r' \<longleftrightarrow> 5 \<le> length (spamReports r')"
      "status r' = (if isSpam r' \<and> \<not> isSpam ?r1 then ''spam'' else status ?r1)"
    by blast
  have mono: "isSpam r \<Longrightarrow> isSpam r'"
  proof -
    assume "isSpam r"
    then have "5 \<le> card (set (spamReports r))"
      using Cons.prems(2,3) by (simp add: distinct_card)
    also have "\<dots> \<le> card (set (spamReports r'))"
      by (rule card_mono) (auto simp: r'(3) p(2))
    finally show "isSpam r'" using r'(2,4) by (simp add: distinct_card)
  qed
  have mono1: "isSpam ?r1 \<Longrightarrow> isSpam r'"
  proof -
    assume "isSpam ?r1"
    then have "5 \<le> card (set (spamReports ?r1))"
      using p(1,3) by (simp add: distinct_card)
    also have "\<dots> \<le> card (set (spamReports r'))"
      by (rule card_mono) (auto simp: r'(3))
    finally show "isSpam r'" using r'(2,4) by (simp add: distinct_card)
  qed
  have mono0: "isSpam r \<Longrightarrow> isSpam ?r1"
    by (auto simp: flagged_def Let_def)
  have st: "status r' = (if isSpam r' \<and> \<not> isSpam r then ''spam'' else status r)"
  proof (cases "isSpam ?r1")
    case True
    then show ?thesis using r'(5) p(4) mono1 by simp
  next
    case False
    then show ?thesis using r'(5) p(4) mono0 by auto
  qed
  have se: "set (spamReports r') = set (spamReports r) \<union> uid ` set (u # us)"
    using r'(3) p(2) by auto
  have f: "fold (\<lambda>u w. snd (reportSpam u i w)) (u # us) w =
           fold (\<lambda>u w. snd (reportSpam u i w)) us ?w1"
    by simp
  show ?case
    unfolding f using r'(1,2,4) st se by blast
qed

text \<open>
  Claim C1. Starting from a report whose spam flag agrees with its reporter list
  (\<open>isSpam\<close> exactly when the list has 5 entries, as it is from creation on), after
  any sequence of \<open>reportSpam\<close> calls the list holds exactly the distinct flagging
  users, \<open>isSpam\<close> is true exactly when they are 5 or more, and the status was set to
  \<open>spam\<close> exactly when \<open>isSpam\<close> turned true; a flag by a user already in the list
  leaves the stored reports as they are.
\<close>

theorem reportSpam_threshold:
  assumes "findById (reports w) i [] = Some r"
    and "distinct (spamReports r)"
    and "isSpam r \<longleftrightarrow> 5 \<le> length (spamReports r)"
  shows "(\<exists>r'. findById (reports (fold (\<lambda>u w. snd (reportSpam u i w)) us w)) i [] = Some r' \<and>
            set (spamReports r') = set (spamReports r) \<union> uid ` set us \<and>
            distinct (spamReports r') \<and>
            (isSpam r' \<longleftrightarrow> 5 \<le> card (set (spamReports r) \<union> uid ` set us)) \<and>
            status r' = (if isSpam r' \<and> \<not> isSpam r then ''spam'' else status r))
       \<and> (uid u \<in> set (spamReports r) \<longrightarrow> reports (snd (reportSpam u i w)) = reports w)"
proof
  from reportSpam_fold[OF assms, of us] obtain r' where
    r': "findById (reports (fold (\<lambda>u w. snd (reportSpam u i w)) us w)) i [] = Some r'"
      "distinct (spamReports r')"
      "set (spamReports r') = set (spamReports r) \<union> uid ` set us"
      "isSpam r' \<longleftrightarrow> 5 \<le> length (spamReports r')"
      "status r' = (if isSpam r' \<and> \<not> isSpam r then ''spam'' else status r)"
    by blast
  have "length (spamReports r') = card (set (spamReports r) \<union> uid ` set us)"
    using r'(2,3) distinct_card by fastforce
  with r'(4) have "isSpam r' \<longleftrightarrow> 5 \<le> card (set (spamReports r) \<union> uid ` set us)"
    by simp
  with r'(1,2,3,5) show "\<exists>r'. findById (reports (fold (\<lambda>u w. snd (reportSpam u i w)) us w)) i [] = Some r' \<and>
            set (spamReports r') = set (spamReports r) \<union> uid ` set us \<and>
            distinct (spamReports r') \<and>
            (isSpam r' \<longleftrightarrow> 5 \<le> card (set (spamReports r) \<union> uid ` set us)) \<and>
            status r' = (if isSpam r' \<and> \<not> isSpam r then ''spam'' else status r)"
    by blast
next
  show "uid u \<in> set (spamReports r) \<longrightarrow> reports (snd (reportSpam u i w)) = reports w"
    using assms by (auto simp: reportSpam_def Let_def)
qed



theorem reportSpam_threshold_witness:
  "(\<exists>r'. findById (reports (fold (\<lambda>u w. snd (reportSpam u 1 w))
            [student 2, student 3, student 4, student 2, student 5] world1)) 1 [] = Some r'
          \<and> \<not> isSpam r' \<and> status r' = ''reported'') \<and>
   (\<exists>r'. findById (reports (fold (\<lambda>u w. snd (reportSpam u 1 w))
            [student 2, student 3, student 4, student 2, student 5, student 6] world1)) 1 [] = Some r'
          \<and> isSpam r' \<and> status r' = ''spam'')"
proof -
  let ?r = "project [] report1"
  have h1: "findById (reports world1) 1 [] = Some ?r"
    by (simp add: findById_def world1_def world0_def report1_def)
  have f: "spamReports ?r = []" "isSpam ?r = False" "status ?r = ''reported''"
    by (simp_all add: project_def report1_def)
  have h2: "distinct (spamReports ?r)" and h3: "isSpam ?r \<longleftrightarrow> 5 \<le> length (spamReports ?r)"
    by (simp_all add: f)
  have c4: "card (set (spamReports ?r) \<union> uid ` set [student 2, student 3, student 4, student 2, student 5]) = 4"
    unfolding f by (simp only: set_map[symmetric] List.card_set list.set(1) Un_empty_left) (simp add: student_def)
  have c5: "card (set (spamReports ?r) \<union> uid ` set [student 2, student 3, student 4, student 2, student 5, student 6]) = 5"
    unfolding f by (simp only: set_map[symmetric] List.card_set list.set(1) Un_empty_left) (simp add: student_def)
  note t4 = reportSpam_threshold[OF h1 h2 h3,
      of "[student 2, student 3, student 4, student 2, student 5]" "student 2", unfolded c4]
  note t5 = reportSpam_threshold[OF h1 h2 h3,
      of "[student 2, student 3, student 4, student 2, student 5, student 6]" "student 2", unfolded c5]
  from t4
  have a: "\<exists>r'. findById (reports (fold (\<lambda>u w. snd (reportSpam u 1 w))
            [student 2, student 3, student 4, student 2, student 5] world1)) 1 [] = Some r'
          \<and> \<not> isSpam r' \<and> status r' = ''reported''"
    unfolding f by auto
  from t5
  have b: "\<exists>r'. findById (reports (fold (\<lambda>u w. snd (reportSpam u 1 w))
            [student 2, student 3, student 4, student 2, student 5, student 6] world1)) 1 [] = Some r'
          \<and> isSpam r' \<and> status r' = ''spam''"
    unfolding f by auto
  from a b show ?thesis by blast
qed

section \<open>Votes\<close>

lemma save_preserves:
  assumes "\<forall>r \<in> set (reports w). P r" and "\<And>r. P r \<Longrightarrow> P (persist r d)"
  shows "\<forall>r \<in> set (reports (save d w)). P r"
  using assms by (auto simp: save_def)

lemma findById_in:
  "findById rs i sel = Some d \<Longrightarrow> \<exists>r \<in> set rs. d = project sel r"
  by (auto simp: findById_def find_Some_iff)

lemma addVote_disjoint: "votesDisjoint r \<Longrightarrow> votesDisjoint (addVote r a v)"
  by (auto simp: addVote_def votesDisjoint_def Let_def)

lemma addVote_idem: "addVote (addVote r a v) a v = addVote r a v"
  by (auto simp: addVote_def Let_def)

lemma addVote_frame:
  "rid (addVote r a v) = rid r" "moderatorNotes (addVote r a v) = moderatorNotes r"
  "editHistory (addVote r a v) = editHistory r"
  by (auto simp: addVote_def Let_def)

lemma votesDisjoint_project [simp]: "votesDisjoint (project sel r) = votesDisjoint r"
  by (simp add: votesDisjoint_def project_def)

lemma votesDisjoint_persist [simp]: "votesDisjoint (persist r d) = votesDisjoint d"
  by (simp add: votesDisjoint_def persist_def)

lemma voteReport_preserves:
  assumes "\<forall>r \<in> set (reports w). votesDisjoint r"
  shows "\<forall>r \<in> set (reports (snd (voteReport u i v w))). votesDisjoint r"
proof (cases "v \<in> set [''confirm'', ''dispute'']")
  case False
  then show ?thesis using assms by (simp add: voteReport_def)
next
  case True
  show ?thesis
  proof (cases "findById (reports w) i []")
    case None
    then show ?thesis using assms True by (simp add: voteReport_def)
  next
    case (Some d)
    then obtain r where "r \<in> set (reports w)" "d = project [] r"
      using findById_in by blast
    then have "votesDisjoint (addVote d (uid u) v)"
      using assms addVote_disjoint by simp
    then have "\<forall>r \<in> set (reports (save (addVote d (uid u) v) w)). votesDisjoint r"
      by (intro save_preserves[OF assms]) simp
    then show ?thesis using Some True by (simp add: voteReport_def Let_def)
  qed
qed

lemma persist_persist: "persist (persist r d) d = persist r d"
  by (simp add: persist_def split: option.splits)

lemma save_save: "save d (save d w) = save d w"
  by (simp add: save_def persist_persist rid_persist cong: if_cong)

lemma voteReport_idem:
  "reports (snd (voteReport u i v (snd (voteReport u i v w)))) = reports (snd (voteReport u i v w))"
proof (cases "v \<in> set [''confirm'', ''dispute'']")
  case False
  then show ?thesis by (simp add: voteReport_def)
next
  case True
  show ?thesis
  proof (cases "findById (reports w) i []")
    case None
    then show ?thesis using True by (simp add: voteReport_def)
  next
    case (Some d)
    let ?d = "addVote d (uid u) v"
    note un = findById_unselected[OF Some] and ri = findById_rid[OF Some]
    have 1: "reports (snd (voteReport u i v w)) = reports (save ?d w)"
      using Some True by (simp add: voteReport_def Let_def)
    have 2: "findById (reports (save ?d w)) i [] = Some ?d"
      using un ri by (intro findById_save[OF Some]) (simp_all add: addVote_frame)
    have 3: "findById (reports (snd (voteReport u i v w))) i [] = Some ?d"
      using 1 2 by simp
    have "reports (snd (voteReport u i v (snd (voteReport u i v w)))) =
          reports (save (addVote ?d (uid u) v) (snd (voteReport u i v w)))"
      using 3 True by (simp add: voteReport_def[of u i v "snd (voteReport u i v w)"] Let_def)
    also have "\<dots> = reports (save ?d (save ?d w))"
      using 1 by (simp add: addVote_idem save_def)
    finally show ?thesis using 1 by (simp add: save_save)
  qed
qed

lemma voteReport_fold_preserves:
  assumes "\<forall>r \<in> set (reports w). votesDisjoint r"
  shows "\<forall>r \<in> set (reports (fold (\<lambda>(u, i, v) w. snd (voteReport u i v w)) votes w)). votesDisjoint r"
  using assms
proof (induction votes arbitrary: w)
  case Nil
  then show ?case by simp
next
  case (Cons x votes)
  obtain u i v where x: "x = (u, i, v)" by (cases x)
  have "\<forall>r \<in> set (reports (snd (voteReport u i v w))). votesDisjoint r"
    by (rule voteReport_preserves[OF Cons.prems])
  from Cons.IH[OF this] show ?case by (simp add: x)
qed

lemma addVote_sets:
  "set (confirms (addVote r a ''confirm'')) = insert a (set (confirms r))"
  "set (disputes (addVote r a ''confirm'')) = set (disputes r) - {a}"
  "set (disputes (addVote r a ''dispute'')) = insert a (set (disputes r))"
  "set (confirms (addVote r a ''dispute'')) = set (confirms r) - {a}"
  by (auto simp: addVote_def Let_def)

lemma voteReport_stored:
  assumes "findById (reports w) i [] = Some d" and "v \<in> set [''confirm'', ''dispute'']"
  shows "findById (reports (snd (voteReport u i v w))) i [] = Some (addVote d (uid u) v)"
proof -
  note un = findById_unselected[OF assms(1)] and ri = findById_rid[OF assms(1)]
  have 1: "reports (snd (voteReport u i v w)) = reports (save (addVote d (uid u) v) w)"
    using assms by (simp add: voteReport_def Let_def)
  have 2: "findById (reports (save (addVote d (uid u) v) w)) i [] = Some (addVote d (uid u) v)"
    using un ri by (intro findById_save[OF assms(1)]) (simp_all add: addVote_frame)
  show ?thesis using 1 2 by simp
qed

text \<open>
  Claim C2. If no stored report has a user in both vote lists (as at creation, where
  both are empty), then after any sequence of \<open>voteReport\<close> calls (any users, reports
  and vote strings) no stored report has one, and a second identical call leaves the
  stored reports as the first left them. A call with \<open>confirm\<close> or \<open>dispute\<close> for a
  stored report stores \<open>addVote\<close> of the loaded document: afterwards the caller is in
  the requested list and not in the other, and nobody else has moved.
\<close>

theorem voteReport_disjoint_idempotent:
  assumes "\<forall>r \<in> set (reports w). set (confirms r) \<inter> set (disputes r) = {}"
  shows "(\<forall>r \<in> set (reports (fold (\<lambda>(u, i, v) w. snd (voteReport u i v w)) votes w)).
            set (confirms r) \<inter> set (disputes r) = {}) \<and>
         reports (snd (voteReport u i v (snd (voteReport u i v w)))) =
           reports (snd (voteReport u i v w)) \<and>
         set (confirms (addVote d a ''confirm'')) = insert a (set (confirms d)) \<and>
         set (disputes (addVote d a ''confirm'')) = set (disputes d) - {a} \<and>
         set (disputes (addVote d a ''dispute'')) = insert a (set (disputes d)) \<and>
         set (confirms (addVote d a ''dispute'')) = set (confirms d) - {a} \<and>
         (findById (reports w) i [] = Some d \<and> v \<in> set [''confirm'', ''dispute''] \<longrightarrow>
            findById (reports (snd (voteReport u i v w))) i [] = Some (addVote d (uid u) v)) \<and>
         (findById (reports w) i [] = Some d \<longrightarrow>
            (\<exists>r'. findById (reports (snd (voteReport u i ''confirm'' w))) i [] = Some r' \<and>
                  set (confirms r') = insert (uid u) (set (confirms d)) \<and>
                  set (disputes r') = set (disputes d) - {uid u}) \<and>
            (\<exists>r'. findById (reports (snd (voteReport u i ''dispute'' w))) i [] = Some r' \<and>
                  set (disputes r') = insert (uid u) (set (disputes d)) \<and>
                  set (confirms r') = set (confirms d) - {uid u}))"
proof (intro conjI impI)
  show "\<forall>r \<in> set (reports (fold (\<lambda>(u, i, v) w. snd (voteReport u i v w)) votes w)).
            set (confirms r) \<inter> set (disputes r) = {}"
    using voteReport_fold_preserves[of w votes] assms unfolding votesDisjoint_def .
  show "findById (reports (snd (voteReport u i v w))) i [] = Some (addVote d (uid u) v)"
    if "findById (reports w) i [] = Some d \<and> v \<in> set [''confirm'', ''dispute'']"
    using that voteReport_stored by blast
  show "\<exists>r'. findById (reports (snd (voteReport u i ''confirm'' w))) i [] = Some r' \<and>
                  set (confirms r') = insert (uid u) (set (confirms d)) \<and>
                  set (disputes r') = set (disputes d) - {uid u}"
    if f: "findById (reports w) i [] = Some d"
  proof -
    have "findById (reports (snd (voteReport u i ''confirm'' w))) i [] = Some (addVote d (uid u) ''confirm'')"
      by (rule voteReport_stored[OF f]) simp
    then show ?thesis using addVote_sets[of d "uid u"] by simp
  qed
  show "\<exists>r'. findById (reports (snd (voteReport u i ''dispute'' w))) i [] = Some r' \<and>
                  set (disputes r') = insert (uid u) (set (disputes d)) \<and>
                  set (confirms r') = set (confirms d) - {uid u}"
    if f: "findById (reports w) i [] = Some d"
  proof -
    have "findById (reports (snd (voteReport u i ''dispute'' w))) i [] = Some (addVote d (uid u) ''dispute'')"
      by (rule voteReport_stored[OF f]) simp
    then show ?thesis using addVote_sets[of d "uid u"] by simp
  qed
qed (simp_all only: voteReport_idem addVote_sets)

theorem voteReport_disjoint_idempotent_witness:
  "map (\<lambda>r. (confirms r, disputes r, netVotes r))
     (reports (fold (\<lambda>(u, i, v) w. snd (voteReport u i v w))
        [(student 2, 1, ''confirm''), (student 3, 1, ''confirm''), (student 2, 1, ''dispute'')] world1))
     = [([3], [2], 0)] \<and>
   map_option (\<lambda>r. (confirms r, disputes r))
     (findById (reports (snd (voteReport (student 2) 1 ''confirm'' world1))) 1 []) = Some ([2], []) \<and>
   reports (snd (voteReport (student 2) 1 ''confirm'' (snd (voteReport (student 2) 1 ''confirm'' world1)))) =
           reports (snd (voteReport (student 2) 1 ''confirm'' world1))"
proof -
  let ?rs = "reports (fold (\<lambda>(u, i, v) w. snd (voteReport u i v w))
        [(student 2, 1, ''confirm''), (student 3, 1, ''confirm''), (student 2, 1, ''dispute'')] world1)"
  let ?d = "project [] report1"
  have h: "\<forall>r \<in> set (reports world1). set (confirms r) \<inter> set (disputes r) = {}"
    by (simp add: world1_def world0_def report1_def)
  have f: "findById (reports world1) 1 [] = Some ?d"
    by (simp add: findById_def world1_def world0_def report1_def)
  note t = voteReport_disjoint_idempotent[OF h,
      of "[(student 2, 1, ''confirm''), (student 3, 1, ''confirm''), (student 2, 1, ''dispute'')]"
         "student 2" 1 "''confirm''" ?d 2]
  have 1: "map (\<lambda>r. (confirms r, disputes r, netVotes r)) ?rs = [([3], [2], 0)]"
    by code_simp
  from t f have "findById (reports (snd (voteReport (student 2) 1 ''confirm'' world1))) 1 [] =
      Some (addVote ?d (uid (student 2)) ''confirm'')"
    by simp
  moreover have "confirms (addVote ?d (uid (student 2)) ''confirm'') = [2]"
    "disputes (addVote ?d (uid (student 2)) ''confirm'') = []"
    by (simp_all add: addVote_def project_def report1_def student_def Let_def)
  ultimately have 2: "map_option (\<lambda>r. (confirms r, disputes r))
     (findById (reports (snd (voteReport (student 2) 1 ''confirm'' world1))) 1 []) = Some ([2], [])"
    by simp
  show ?thesis
    by (rule conjI[OF 1 conjI[OF 2 conjunct1[OF conjunct2[OF t]]]])
qed

section \<open>Editing\<close>

lemma canEdit_iff:
  "canEdit r a (30 * 60 * 1000) now \<longleftrightarrow>
     status r = ''reported'' \<and> reporterId r = a \<and> now - createdAt r < 1800000"
  by (simp add: canEdit_def)





text \<open>
  Claim C3. The guard of Edit is \<open>canEdit\<close>: owner, status \<open>reported\<close>, less than 30
  minutes since creation; when it fails the answer is 403 and nothing is stored
  (\<open>updateReport_rejects\<close>). When it holds the handler does not succeed: at 29m59s the
  owner's edit of a report in status \<open>reported\<close> passes \<open>canEdit\<close> and is answered with
  500, the stored report unchanged, because the document was loaded without
  \<open>editHistory\<close> and the push onto it throws. At 30m01s, and for another user, the
  answer is 403.
\<close>

theorem updateReport_in_window_fails:
  "canEdit (project [] report1) (uid (student 1)) (30 * 60 * 1000) 1799000 \<and>
   findById (reports world1) 1 [] = Some (project [] report1) \<and>
   updateReport (student 1) 1 titleEdit 1799000 world1 =
     (reply 500 False ''Failed to update report'',
      world1\<lparr>console := [ErrorLine ''Update report error:'']\<rparr>) \<and>
   updateReport (student 1) 1 titleEdit 1801000 world1 =
     (reply 403 False ''Cannot edit report (time limit exceeded or not owner)'', world1) \<and>
   updateReport (student 2) 1 titleEdit 1799000 world1 =
     (reply 403 False ''Cannot edit report (time limit exceeded or not owner)'', world1)"
  by (simp add: updateReport_def canEdit_def findById_def project_def world1_def world0_def
        report1_def student_def titleEdit_def applyEdit_def truthyStr_def truthyNum_def
        failed_def Let_def)

lemma applyEdit_Some:
  assumes "applyEdit b now r = Some r'"
  obtains h where "editHistory r = Some h"
    and "r' = r\<lparr>title := (if truthyStr (b_title b) then trim (the (b_title b)) else title r),
                 description := orStr (b_description b) (description r),
                 category := orStr (b_category b) (category r),
                 severity := orNum (b_severity b) (severity r),
                 mediaUrls := (case b_mediaUrls b of Some m \<Rightarrow> m | None \<Rightarrow> mediaUrls r),
                 isEdited := True, editedAt := Some now,
                 editHistory := Some (h @ [\<lparr>h_editedAt = now,
                   h_changes = [(''title'', JStr (orStr (b_title b) (title r))),
                                (''description'', JStr (orStr (b_description b) (description r))),
                                (''category'', JStr (orStr (b_category b) (category r))),
                                (''severity'', JNum (orNum (b_severity b) (severity r)))]\<rparr>])\<rparr>"
proof -
  from assms obtain h where h: "editHistory r = Some h"
    by (cases "editHistory r") (auto simp: applyEdit_def Let_def split: option.splits if_splits)
  have ts: "truthyStr v \<Longrightarrow> orStr v d = the v" for v d
    by (cases v) (auto simp: truthyStr_def orStr_def)
  have fs: "\<not> truthyStr v \<Longrightarrow> orStr v d = d" for v d
    by (cases v) (auto simp: truthyStr_def orStr_def)
  have tn: "truthyNum v \<Longrightarrow> orNum v d = the v" for v d
    by (cases v) (auto simp: truthyNum_def orNum_def)
  have fn: "\<not> truthyNum v \<Longrightarrow> orNum v d = d" for v d
    by (cases v) (auto simp: truthyNum_def orNum_def)
  show thesis
  proof (rule that[OF h])
    show "r' = r\<lparr>title := (if truthyStr (b_title b) then trim (the (b_title b)) else title r),
                 description := orStr (b_description b) (description r),
                 category := orStr (b_category b) (category r),
                 severity := orNum (b_severity b) (severity r),
                 mediaUrls := (case b_mediaUrls b of Some m \<Rightarrow> m | None \<Rightarrow> mediaUrls r),
                 isEdited := True, editedAt := Some now,
                 editHistory := Some (h @ [\<lparr>h_editedAt = now,
                   h_changes = [(''title'', JStr (orStr (b_title b) (title r))),
                                (''description'', JStr (orStr (b_description b) (description r))),
                                (''category'', JStr (orStr (b_category b) (category r))),
                                (''severity'', JNum (orNum (b_severity b) (severity r)))]\<rparr>])\<rparr>"
      using assms h
      by (cases "truthyStr (b_title b)"; cases "truthyStr (b_description b)";
          cases "truthyStr (b_category b)"; cases "truthyNum (b_severity b)";
          cases "b_mediaUrls b")
         (simp_all add: applyEdit_def Let_def ts fs tn fn)
  qed
qed




section \<open>Resolution stamps\<close>

lemma resolvedStamped_cong:
  "status d = status r \<Longrightarrow> resolvedBy d = resolvedBy r \<Longrightarrow> resolvedAt d = resolvedAt r \<Longrightarrow>
   resolvedStamped d = resolvedStamped r"
  by (simp add: resolvedStamped_def)

lemma resolvedStamped_persist [simp]: "resolvedStamped (persist r d) = resolvedStamped d"
  by (rule resolvedStamped_cong) (simp_all add: persist_def)

lemma resolvedStamped_project [simp]: "resolvedStamped (project sel r) = resolvedStamped r"
  by (rule resolvedStamped_cong) (simp_all add: project_def)




lemma allStamped_console [simp]: "allStamped (w\<lparr>console := c\<rparr>) = allStamped w"
  by (simp add: allStamped_def)

lemma allStamped_comments [simp]: "allStamped (w\<lparr>comments := c\<rparr>) = allStamped w"
  by (simp add: allStamped_def)

lemma allStamped_logAction [simp]: "allStamped (logAction a w) = allStamped w"
  by (simp add: allStamped_def)

lemma allStamped_createNotification [simp]: "allStamped (createNotification n w) = allStamped w"
  by (simp add: allStamped_def createNotification_def)

lemma allStamped_emitReportUpdate [simp]: "allStamped (emitReportUpdate c i us w) = allStamped w"
  by (simp add: allStamped_def emitReportUpdate_def split: option.splits)

lemma allStamped_emitNewComment [simp]: "allStamped (emitNewComment i c w) = allStamped w"
  by (simp add: allStamped_def emitNewComment_def split: option.splits)

lemma allStamped_emitNewReport [simp]: "allStamped (emitNewReport c r w) = allStamped w"
  by (simp add: allStamped_def emitNewReport_def split: option.splits)

lemma allStamped_failed [simp]: "allStamped (snd (failed l m w)) = allStamped w"
  by (simp add: allStamped_def failed_def)







section \<open>Moderator updates\<close>

lemma moderated_fields:
  "status (moderated u b now us r) = (if truthyStr (m_status b) then the (m_status b) else status r)"
  "resolvedBy (moderated u b now us r) =
     (if m_status b = Some ''resolved'' then Some (uid u) else resolvedBy r)"
  "resolvedAt (moderated u b now us r) =
     (if m_status b = Some ''resolved'' then Some now else resolvedAt r)"
  "reporterId (moderated u b now us r) = reporterId r"
  "rid (moderated u b now us r) = rid r"
  by (auto simp: moderated_def Let_def truthyStr_def split: option.splits)


lemma updateReportStatus_moderated:
  "updateReportStatus u i b now w =
     (case findById (reports w) i [''+moderatorNotes''] of
        None \<Rightarrow> (reply 404 False ''Report not found'', w)
      | Some report \<Rightarrow>
          if campusId report \<noteq> u_campusId u \<and> role u \<noteq> ''super-admin''
          then (reply 403 False ''Access denied to this campus'', w)
          else
            let oldStatus = status report;
                r3 = moderated u b now (users w) report
            in if \<not> moderationValid r3
               then failed ''Update report status error:'' ''Failed to update report'' w
               else
                 let w1 = save r3 w;
                     w2 = logAction \<lparr>a_actorId = uid u,
                            a_action = (if m_status b = Some ''verified'' then ''verify_report''
                                        else if m_status b = Some ''invalid'' then ''invalidate_report''
                                        else ''resolve_report''),
                            a_entityType = ''report'', a_entityId = rid r3, a_payload = [],
                            a_changes = Some ([(''status'', JStr oldStatus)],
                                              [(''status'', JStr (status r3))])\<rparr> w1;
                     w3 = (if oldStatus \<noteq> status r3 \<and> reporterId r3 \<noteq> uid u
                           then createNotification \<lparr>n_userId = reporterId r3, n_reportId = rid r3,
                                  n_type = ''moderator_action'', n_title = ''Report Status Updated'',
                                  n_message = ''Your report has been '' @
                                    (case m_status b of None \<Rightarrow> ''undefined'' | Some s \<Rightarrow> s),
                                  n_data = [],
                                  n_priority = (if m_status b = Some ''resolved'' then ''medium''
                                                else ''low'')\<rparr> w2
                           else w2);
                     w4 = emitReportUpdate (u_campusId u) (rid r3)
                            [(''status'', JStr (status r3)),
                             (''moderatorNotes'', (case moderatorNotes r3 of None \<Rightarrow> JUndefined | Some n \<Rightarrow> JStr n)),
                             (''resolvedBy'', (case resolvedBy r3 of None \<Rightarrow> JUndefined | Some x \<Rightarrow> JId x)),
                             (''resolvedAt'', (case resolvedAt r3 of None \<Rightarrow> JUndefined | Some d \<Rightarrow> JDate d)),
                             (''assignedTo'', (case assignedTo r3 of None \<Rightarrow> JUndefined | Some x \<Rightarrow> JId x))] w3
                 in (reply 200 True ''Report updated successfully'', w4))"
  unfolding updateReportStatus_def moderated_def Let_def by (rule refl)

lemma updateReportStatus_reports:
  assumes "findById (reports w) i [''+moderatorNotes''] = Some d"
  shows "reports (snd (updateReportStatus u i b now w)) =
     (if (campusId d \<noteq> u_campusId u \<and> role u \<noteq> ''super-admin'') \<or>
         \<not> moderationValid (moderated u b now (users w) d)
      then reports w
      else reports (save (moderated u b now (users w) d) w))"
proof -
  have e: "reports (emitReportUpdate c j us w') = reports w'" for c j us w'
    by (simp add: emitReportUpdate_def split: option.splits)
  have n: "reports (createNotification x w') = reports w'" for x w'
    by (simp add: createNotification_def)
  show ?thesis
    unfolding updateReportStatus_moderated
    using assms by (simp add: Let_def failed_def e n)
qed







lemma findById_save_fields:
  assumes "findById (reports w) i sel = Some d" and "rid d' = i"
  shows "\<exists>r'. findById (reports (save d' w)) i sel = Some r' \<and> status r' = status d' \<and>
           resolvedBy r' = resolvedBy d' \<and> resolvedAt r' = resolvedAt d'"
proof -
  from assms(1) obtain z where z: "find (\<lambda>r. rid r = i) (reports w) = Some z"
    by (auto simp: findById_def)
  have "findById (reports (save d' w)) i sel = Some (project sel (persist z d'))"
    using z assms(2) by (simp add: findById_def find_save)
  moreover have "status (project sel (persist z d')) = status d'"
    "resolvedBy (project sel (persist z d')) = resolvedBy d'"
    "resolvedAt (project sel (persist z d')) = resolvedAt d'"
    by (simp_all add: project_def persist_def)
  ultimately show ?thesis by blast
qed

lemma updateReportStatus_world:
  assumes "findById (reports w) i [''+moderatorNotes''] = Some d"
    and "campusId d = u_campusId u \<or> role u = ''super-admin''"
    and "moderationValid (moderated u b now (users w) d)"
  shows "code (fst (updateReportStatus u i b now w)) = 200"
    and "reports (snd (updateReportStatus u i b now w)) = reports (save (moderated u b now (users w) d) w)"
    and "auditLogs (snd (updateReportStatus u i b now w)) = auditLogs w @
           [\<lparr>a_actorId = uid u,
             a_action = (if m_status b = Some ''verified'' then ''verify_report''
                         else if m_status b = Some ''invalid'' then ''invalidate_report''
                         else ''resolve_report''),
             a_entityType = ''report'', a_entityId = rid d, a_payload = [],
             a_changes = Some ([(''status'', JStr (status d))],
                               [(''status'', JStr (status (moderated u b now (users w) d)))])\<rparr>]"
    and "notifications (snd (updateReportStatus u i b now w)) =
           (if status d \<noteq> status (moderated u b now (users w) d) \<and> reporterId d \<noteq> uid u
            then notifications w @
              [\<lparr>n_userId = reporterId d, n_reportId = rid d,
                n_type = ''moderator_action'', n_title = ''Report Status Updated'',
                n_message = ''Your report has been '' @
                   (case m_status b of None \<Rightarrow> ''undefined'' | Some s \<Rightarrow> s),
                n_data = [],
                n_priority = (if m_status b = Some ''resolved'' then ''medium'' else ''low'')\<rparr>]
            else notifications w)"
proof -
  have e: "reports (emitReportUpdate c j us w') = reports w'"
    "auditLogs (emitReportUpdate c j us w') = auditLogs w'"
    "notifications (emitReportUpdate c j us w') = notifications w'" for c j us w'
    by (simp_all add: emitReportUpdate_def split: option.splits)
  have n: "reports (createNotification x w') = reports w'"
    "auditLogs (createNotification x w') = auditLogs w'"
    "notifications (createNotification x w') = notifications w' @ [x]" for x w'
    by (simp_all add: createNotification_def)
  have l: "auditLogs (logAction a w') = auditLogs w' @ [a]"
    "notifications (logAction a w') = notifications w'" for a w'
    by (simp_all add: logAction_def)
  have s: "auditLogs (save x w') = auditLogs w'" "notifications (save x w') = notifications w'" for x w'
    by (simp_all add: save_def)
  show "code (fst (updateReportStatus u i b now w)) = 200"
    unfolding updateReportStatus_moderated using assms by (auto simp: Let_def reply_def)
  show "reports (snd (updateReportStatus u i b now w)) = reports (save (moderated u b now (users w) d) w)"
    unfolding updateReportStatus_reports[OF assms(1)] using assms(2,3) by auto
  show "auditLogs (snd (updateReportStatus u i b now w)) = auditLogs w @
           [\<lparr>a_actorId = uid u,
             a_action = (if m_status b = Some ''verified'' then ''verify_report''
                         else if m_status b = Some ''invalid'' then ''invalidate_report''
                         else ''resolve_report''),
             a_entityType = ''report'', a_entityId = rid d, a_payload = [],
             a_changes = Some ([(''status'', JStr (status d))],
                               [(''status'', JStr (status (moderated u b now (users w) d)))])\<rparr>]"
    unfolding updateReportStatus_moderated using assms
    by (auto simp: Let_def e n l s moderated_fields)
  show "notifications (snd (updateReportStatus u i b now w)) =
           (if status d \<noteq> status (moderated u b now (users w) d) \<and> reporterId d \<noteq> uid u
            then notifications w @
              [\<lparr>n_userId = reporterId d, n_reportId = rid d,
                n_type = ''moderator_action'', n_title = ''Report Status Updated'',
                n_message = ''Your report has been '' @
                   (case m_status b of None \<Rightarrow> ''undefined'' | Some s \<Rightarrow> s),
                n_data = [],
                n_priority = (if m_status b = Some ''resolved'' then ''medium'' else ''low'')\<rparr>]
            else notifications w)"
    unfolding updateReportStatus_moderated using assms
    by (auto simp: Let_def e n l s moderated_fields)
qed

lemma updateReportStatus_200:
  assumes "findById (reports w) i [''+moderatorNotes''] = Some d"
    and "code (fst (updateReportStatus u i b now w)) = 200"
  shows "campusId d = u_campusId u \<or> role u = ''super-admin''"
    and "moderationValid (moderated u b now (users w) d)"
  using assms unfolding updateReportStatus_moderated
  by (auto simp: Let_def reply_def failed_def split: if_splits)

text \<open>
  Claim C8. When the moderation route accepts (200) a request with status
  \<open>resolved\<close> for a report in status \<open>reported\<close>, the caller has a moderating role,
  the stored report is \<open>resolved\<close> with \<open>resolvedBy\<close> the caller and \<open>resolvedAt\<close> the
  time of the request, exactly one audit entry is added, with action
  \<open>resolve_report\<close> and the change from \<open>reported\<close> to \<open>resolved\<close>, and exactly one
  \<open>moderator_action\<close> notification for the reporter is added when the reporter is not
  the caller (none otherwise).
\<close>

theorem moderator_resolves:
  assumes "findById (reports w) i [''+moderatorNotes''] = Some d"
    and "status d = ''reported''"
    and "m_status b = Some ''resolved''"
    and "code (fst (patchModerationReport u i b now w)) = 200"
  shows "canModerate u \<and>
    (\<exists>r'. findById (reports (snd (patchModerationReport u i b now w))) i [''+moderatorNotes''] = Some r' \<and>
          status r' = ''resolved'' \<and> resolvedBy r' = Some (uid u) \<and> resolvedAt r' = Some now) \<and>
    auditLogs (snd (patchModerationReport u i b now w)) = auditLogs w @
      [\<lparr>a_actorId = uid u, a_action = ''resolve_report'', a_entityType = ''report'',
        a_entityId = i, a_payload = [],
        a_changes = Some ([(''status'', JStr ''reported'')], [(''status'', JStr ''resolved'')])\<rparr>] \<and>
    notifications (snd (patchModerationReport u i b now w)) =
      (if reporterId d \<noteq> uid u
       then notifications w @
         [\<lparr>n_userId = reporterId d, n_reportId = i, n_type = ''moderator_action'',
           n_title = ''Report Status Updated'', n_message = ''Your report has been resolved'',
           n_data = [], n_priority = ''medium''\<rparr>]
       else notifications w)"
proof -
  have role: "role u \<in> set [''moderator'', ''admin'', ''super-admin'']"
    using assms(4) by (auto simp: patchModerationReport_def requireRole_def reply_def split: if_splits)
  then have p: "patchModerationReport u i b now w = updateReportStatus u i b now w"
    by (simp add: patchModerationReport_def requireRole_def)
  have c: "code (fst (updateReportStatus u i b now w)) = 200"
    using assms(4) p by simp
  note ok = updateReportStatus_200[OF assms(1) c]
  note wd = updateReportStatus_world[OF assms(1) ok]
  let ?r3 = "moderated u b now (users w) d"
  have i: "rid d = i" by (rule findById_rid[OF assms(1)])
  have f: "status ?r3 = ''resolved''" "resolvedBy ?r3 = Some (uid u)" "resolvedAt ?r3 = Some now"
    "rid ?r3 = i"
    using assms(3) i by (simp_all add: moderated_fields truthyStr_def)
  from findById_save_fields[OF assms(1) f(4)] f
  have 1: "\<exists>r'. findById (reports (snd (patchModerationReport u i b now w))) i [''+moderatorNotes''] = Some r' \<and>
          status r' = ''resolved'' \<and> resolvedBy r' = Some (uid u) \<and> resolvedAt r' = Some now"
    unfolding p wd(2) by simp
  have 2: "auditLogs (snd (patchModerationReport u i b now w)) = auditLogs w @
      [\<lparr>a_actorId = uid u, a_action = ''resolve_report'', a_entityType = ''report'',
        a_entityId = i, a_payload = [],
        a_changes = Some ([(''status'', JStr ''reported'')], [(''status'', JStr ''resolved'')])\<rparr>]"
    unfolding p wd(3) using assms(2,3) i f(1) by simp
  have 3: "notifications (snd (patchModerationReport u i b now w)) =
      (if reporterId d \<noteq> uid u
       then notifications w @
         [\<lparr>n_userId = reporterId d, n_reportId = i, n_type = ''moderator_action'',
           n_title = ''Report Status Updated'', n_message = ''Your report has been resolved'',
           n_data = [], n_priority = ''medium''\<rparr>]
       else notifications w)"
    unfolding p wd(4) using assms(2,3) i f(1) by simp
  have 0: "canModerate u" using role by (simp add: canModerate_def)
  show ?thesis by (intro conjI 0 1 2 3)
qed

theorem moderator_resolves_witness:
  "code (fst (patchModerationReport moderator 1 resolveBody 1000 world1)) = 200 \<and>
   (\<exists>r'. findById (reports (snd (patchModerationReport moderator 1 resolveBody 1000 world1))) 1
            [''+moderatorNotes''] = Some r' \<and>
          status r' = ''resolved'' \<and> resolvedBy r' = Some 100 \<and> resolvedAt r' = Some 1000) \<and>
   auditLogs (snd (patchModerationReport moderator 1 resolveBody 1000 world1)) =
      [\<lparr>a_actorId = 100, a_action = ''resolve_report'', a_entityType = ''report'',
        a_entityId = 1, a_payload = [],
        a_changes = Some ([(''status'', JStr ''reported'')], [(''status'', JStr ''resolved'')])\<rparr>] \<and>
   notifications (snd (patchModerationReport moderator 1 resolveBody 1000 world1)) =
      [\<lparr>n_userId = 1, n_reportId = 1, n_type = ''moderator_action'',
        n_title = ''Report Status Updated'', n_message = ''Your report has been resolved'',
        n_data = [], n_priority = ''medium''\<rparr>]"
proof -
  have h1: "findById (reports world1) 1 [''+moderatorNotes''] = Some (project [''+moderatorNotes''] report1)"
    by (simp add: findById_def world1_def world0_def report1_def)
  have h2: "status (project [''+moderatorNotes''] report1) = ''reported''"
    by (simp add: project_def report1_def)
  have h3: "m_status resolveBody = Some ''resolved''"
    by (simp add: resolveBody_def)
  have h4: "code (fst (patchModerationReport moderator 1 resolveBody 1000 world1)) = 200"
    by code_simp
  have v: "uid moderator = 100" "reporterId (project [''+moderatorNotes''] report1) = 1"
    "auditLogs world1 = []" "notifications world1 = []"
    by (simp_all add: moderator_def project_def report1_def world1_def world0_def)
  from moderator_resolves[OF h1 h2 h3 h4] h4 show ?thesis
    unfolding v by simp
qed

section \<open>Push signal\<close>

lemma pushSignals_append [simp]: "pushSignals (xs @ ys) = pushSignals xs @ pushSignals ys"
  by (induction xs rule: pushSignals.induct) simp_all

lemma pushSignals_emitNewReport [simp]:
  "pushSignals (console (emitNewReport c r w)) = pushSignals (console w)"
  by (simp add: emitNewReport_def split: option.splits)

lemma console_logAction [simp]: "console (logAction a w) = console w"
  by (simp add: logAction_def)

lemma createReport_code:
  "code (fst (createReport e u b now w)) = 201 \<longleftrightarrow>
     (\<exists>coords. cb_location b = Some coords \<and> length coords = 2 \<and>
        contentValid \<lparr>rid = freshId (reports w), reporterId = uid u, campusId = u_campusId u,
                   category = cb_category b, severity = cb_severity b,
                   title = trim (cb_title b), description = cb_description b,
                   coordinates = coords, mediaUrls = cb_mediaUrls b,
                   isAnonymous = cb_isAnonymous b, status = ''reported'',
                   resolvedBy = None, resolvedAt = None, moderatorNotes = None,
                   assignedTo = None, confirms = [], disputes = [], commentsCount = 0,
                   viewsCount = 0, spamReports = [], isSpam = False, isEdited = False,
                   editedAt = None, editHistory = Some [], createdAt = now\<rparr>)"
  by (cases "cb_location b") (simp_all add: createReport_def Let_def reply_def failed_def)

text \<open>
  Claim C7, amended. \<open>createReport\<close> gives its push signal exactly when the report
  was created (201) and its severity is at least the server-wide
  \<open>env.notifications.minSeverityForPush\<close> (never when that value is \<open>NaN\<close>); the
  signal is for the new report. The campus collection, and with it every campus
  setting, has no influence on the answer nor on what is written.
\<close>

theorem createReport_push_signal:
  "pushSignals (console (snd (createReport e u b now w))) =
     pushSignals (console w) @
       (if code (fst (createReport e u b now w)) = 201 \<and>
           (\<exists>t. notifications_minSeverityForPush e = Some t \<and> t \<le> cb_severity b)
        then [freshId (reports w)] else []) \<and>
   fst (createReport e u b now (w\<lparr>campuses := cs\<rparr>)) = fst (createReport e u b now w) \<and>
   console (snd (createReport e u b now (w\<lparr>campuses := cs\<rparr>))) =
     console (snd (createReport e u b now w))"
proof (intro conjI)
  have sr: "severityReaches s t = (\<exists>x. t = Some x \<and> x \<le> s)" for s t
    by (cases t) (simp_all add: severityReaches_def)
  show "pushSignals (console (snd (createReport e u b now w))) =
     pushSignals (console w) @
       (if code (fst (createReport e u b now w)) = 201 \<and>
           (\<exists>t. notifications_minSeverityForPush e = Some t \<and> t \<le> cb_severity b)
        then [freshId (reports w)] else [])"
    unfolding sr[symmetric]
    by (cases "cb_location b") (simp_all add: createReport_def Let_def reply_def failed_def)
  have em: "console (emitNewReport c r w') =
      (case io w' of None \<Rightarrow> console w' | Some evs \<Rightarrow> console w' @ [EmittedNewReport c])" for c r w'
    by (simp add: emitNewReport_def split: option.splits)
  have lg: "io (logAction a w') = io w'" for a w'
    by (simp add: logAction_def)
  show "fst (createReport e u b now (w\<lparr>campuses := cs\<rparr>)) = fst (createReport e u b now w)"
    by (cases "cb_location b") (simp_all add: createReport_def Let_def failed_def)
  show "console (snd (createReport e u b now (w\<lparr>campuses := cs\<rparr>))) =
     console (snd (createReport e u b now w))"
    by (cases "cb_location b")
       (simp_all add: createReport_def Let_def failed_def em lg split: option.splits)
qed

theorem createReport_push_signal_witness:
  "pushSignals (console (snd (createReport defaultEnv (student 1) (sampleBody\<lparr>cb_severity := 4\<rparr>) 0 world0)))
     = [1] \<and>
   pushSignals (console (snd (createReport defaultEnv (student 1) sampleBody 0 world0))) = []"
proof -
  have c: "code (fst (createReport defaultEnv (student 1) (sampleBody\<lparr>cb_severity := 4\<rparr>) 0 world0)) = 201"
    "code (fst (createReport defaultEnv (student 1) sampleBody 0 world0)) = 201"
    by code_simp+
  have v: "notifications_minSeverityForPush defaultEnv = Some 4" "cb_severity sampleBody = 3"
    "cb_severity (sampleBody\<lparr>cb_severity := 4\<rparr>) = 4" "console world0 = []"
    "freshId (reports world0) = 1"
    by (simp_all add: defaultEnv_def sampleBody_def world0_def freshId_def)
  show ?thesis
    using conjunct1[OF createReport_push_signal[of defaultEnv "student 1" "sampleBody\<lparr>cb_severity := 4\<rparr>" 0 world0 "[]"]]
          conjunct1[OF createReport_push_signal[of defaultEnv "student 1" sampleBody 0 world0 "[]"]]
    unfolding c v by simp
qed

text \<open>
  Claim C7, as stated, fails: the creating campus has \<open>minSeverityForPush = 2\<close>, the
  report has severity 3 and is created, and no push signal is given (the console
  holds the fan-out line only), because the threshold read is the server's 4.
\<close>

theorem createReport_campus_threshold_counterexample:
  "code (fst (createReport defaultEnv (student 1) sampleBody 0 world0)) = 201 \<and>
   campuses world0 = [campusA] \<and> cid campusA = u_campusId (student 1) \<and>
   minSeverityForPush campusA \<le> cb_severity sampleBody \<and>
   console (snd (createReport defaultEnv (student 1) sampleBody 0 world0)) = [EmittedNewReport 1]"
  by code_simp

section \<open>Nearby search results\<close>

lemma findNearby_set:
  "set (findNearby near rs campus lon lat radius fl) \<subseteq>
     project [] ` {r \<in> set rs. campusId r = campus \<and>
        (if truthyStr (f_status fl) then status r = the (f_status fl)
         else status r \<in> set [''reported'', ''verified'', ''investigating'', ''resolved''])}"
  unfolding findNearby_def by (simp only: set_rev set_sort set_map set_filter) blast

lemma project_campus_status [simp]:
  "campusId (project sel r) = campusId r" "status (project sel r) = status r"
  by (simp_all add: project_def)

lemma findNearby_member:
  assumes "r \<in> set (findNearby near rs campus lon lat radius fl)"
  shows "campusId r = campus"
    and "\<not> truthyStr (f_status fl) \<Longrightarrow>
         status r \<in> set [''reported'', ''verified'', ''investigating'', ''resolved'']"
    and "truthyStr (f_status fl) \<Longrightarrow> status r = the (f_status fl)"
proof -
  from assms findNearby_set obtain r0 where r0: "r = project [] r0" "campusId r0 = campus"
    "if truthyStr (f_status fl) then status r0 = the (f_status fl)
     else status r0 \<in> set [''reported'', ''verified'', ''investigating'', ''resolved'']"
    by blast
  show "campusId r = campus" using r0 by simp
  show "\<not> truthyStr (f_status fl) \<Longrightarrow>
         status r \<in> set [''reported'', ''verified'', ''investigating'', ''resolved'']"
    using r0 by simp
  show "truthyStr (f_status fl) \<Longrightarrow> status r = the (f_status fl)"
    using r0 by simp
qed

text \<open>
  Claim C5. Whatever the coordinates, the radius and the distance test, every
  report that \<open>findNearby\<close> returns belongs to the requested campus, and without a
  status filter its status is one of \<open>reported\<close>, \<open>verified\<close>, \<open>investigating\<close>,
  \<open>resolved\<close>; the same holds for what \<open>getNearbyReports\<close> returns, with the caller's
  campus as the requested one.
\<close>

theorem findNearby_campus_and_default_status:
  "(\<forall>r \<in> set (findNearby near rs campus lon lat radius fl).
      campusId r = campus \<and>
      (\<not> truthyStr (f_status fl) \<longrightarrow>
         status r \<in> set [''reported'', ''verified'', ''investigating'', ''resolved''])) \<and>
   (\<forall>r \<in> set (snd (getNearbyReports near u q w)).
      campusId r = u_campusId u \<and>
      (\<not> truthyStr (q_status q) \<longrightarrow>
         status r \<in> set [''reported'', ''verified'', ''investigating'', ''resolved'']))"
proof (intro conjI ballI impI)
  fix r assume "r \<in> set (findNearby near rs campus lon lat radius fl)"
  note m = findNearby_member[OF this]
  show "campusId r = campus" by (rule m(1))
  show "status r \<in> set [''reported'', ''verified'', ''investigating'', ''resolved'']"
    if "\<not> truthyStr (f_status fl)" using that by (rule m(2))
next
  fix r assume a: "r \<in> set (snd (getNearbyReports near u q w))"
  show "campusId r = u_campusId u"
  proof (cases "q_lat q = None \<or> q_lat q = Some 0 \<or> q_lon q = None \<or> q_lon q = Some 0")
    case True
    then show ?thesis using a by (simp add: getNearbyReports_def)
  next
    case False
    then show ?thesis using a
      by (auto simp: getNearbyReports_def Let_def dest!: in_set_takeD dest: findNearby_member(1))
  qed
  show "status r \<in> set [''reported'', ''verified'', ''investigating'', ''resolved'']"
    if n: "\<not> truthyStr (q_status q)"
  proof (cases "q_lat q = None \<or> q_lat q = Some 0 \<or> q_lon q = None \<or> q_lon q = Some 0")
    case True
    then show ?thesis using a by (simp add: getNearbyReports_def)
  next
    case False
    let ?fl = "\<lparr>f_category = (if truthyStr (q_category q) then q_category q else None),
                   f_severity = (if truthyNum (q_severity q) then q_severity q else None),
                   f_status = (if truthyStr (q_status q) then q_status q else None),
                   f_since = q_since q\<rparr>"
    have "\<not> truthyStr (f_status ?fl)" using n by (simp add: truthyStr_def)
    moreover have "r \<in> set (findNearby near (reports w) (u_campusId u) (the (q_lon q)) (the (q_lat q))
                         (case q_radius q of None \<Rightarrow> 1000 | Some r \<Rightarrow> r) ?fl)"
      using a False by (auto simp: getNearbyReports_def Let_def dest!: in_set_takeD)
    ultimately show ?thesis by (rule findNearby_member(2)[rotated])
  qed
qed

theorem findNearby_campus_and_default_status_witness:
  "map rid (findNearby everywhere threeReports 1 (- 12241 / 100) (3778 / 100) 1000 noFilters) = [1] \<and>
   map (\<lambda>r. (campusId r, status r))
     (findNearby everywhere threeReports 1 (- 12241 / 100) (3778 / 100) 1000 noFilters) = [(1, ''reported'')]"
proof -
  let ?rs = "findNearby everywhere threeReports 1 (- 12241 / 100) (3778 / 100) 1000 noFilters"
  have i: "map rid ?rs = [1]"
    by code_simp
  then obtain x where x: "?rs = [x]"
    by (cases ?rs) auto
  have n: "\<not> truthyStr (f_status noFilters)"
    by (simp add: noFilters_def truthyStr_def)
  have c: "campusId x = 1 \<and> status x \<in> set [''reported'', ''verified'', ''investigating'', ''resolved'']"
    using conjunct1[OF findNearby_campus_and_default_status[of everywhere threeReports 1
        "- 12241 / 100" "3778 / 100" 1000 noFilters]] n
    unfolding x by simp
  have s: "map status ?rs = [''reported'']"
    by code_simp
  show ?thesis
    using i c s unfolding x by simp
qed

section \<open>Verified email and rate limit\<close>

lemma createReport_not_429: "code (fst (createReport e u b now w)) \<noteq> 429"
  by (cases "cb_location b") (simp_all add: createReport_def Let_def reply_def failed_def)

lemma postReports_unverified:
  "\<not> isVerified u \<Longrightarrow>
   postReports uri e ip u b now (store, w) =
     (reply 403 False ''Email verification required'', store, w)"
  by (simp add: postReports_def requireVerifiedEmail_def)

lemma postReports_store:
  assumes "isVerified u"
  shows "fst (snd (postReports uri e ip u b now (store, w))) =
     store(ip \<mapsto> (Suc (fst (liveWindow (60 * 60 * 1000) ip now store)),
                    snd (liveWindow (60 * 60 * 1000) ip now store)))"
  using assms
  by (cases "liveWindow (60 * 60 * 1000) ip now store")
     (simp add: postReports_def requireVerifiedEmail_def rateLimit_def Let_def
        split: option.splits prod.splits)

lemma postReports_limited:
  assumes "isVerified u"
    and "reportLimiterMax e < int (Suc (fst (liveWindow (60 * 60 * 1000) ip now store)))"
  shows "code (fst (postReports uri e ip u b now (store, w))) = 429"
    and "snd (snd (postReports uri e ip u b now (store, w))) = w"
  using assms
  by (cases "liveWindow (60 * 60 * 1000) ip now store";
      simp add: postReports_def requireVerifiedEmail_def rateLimit_def Let_def reply_def)+

lemma postReports_passed:
  assumes "isVerified u"
    and "\<not> reportLimiterMax e < int (Suc (fst (liveWindow (60 * 60 * 1000) ip now store)))"
  shows "fst (postReports uri e ip u b now (store, w)) =
     (case createReportSchema uri b of
        None \<Rightarrow> reply 400 False ''Validation failed''
      | Some b' \<Rightarrow> fst (createReport e u b' now w))"
  using assms
  by (cases "liveWindow (60 * 60 * 1000) ip now store")
     (simp add: postReports_def requireVerifiedEmail_def rateLimit_def Let_def
        split: option.splits prod.splits)

lemma postReports_429_iff:
  assumes "isVerified u"
  shows "code (fst (postReports uri e ip u b now (store, w))) = 429 \<longleftrightarrow>
         reportLimiterMax e < int (Suc (fst (liveWindow (60 * 60 * 1000) ip now store)))"
proof (cases "reportLimiterMax e < int (Suc (fst (liveWindow (60 * 60 * 1000) ip now store)))")
  case True
  then show ?thesis using postReports_limited(1)[OF assms] by simp
next
  case False
  have "code (fst (postReports uri e ip u b now (store, w))) \<noteq> 429"
    unfolding postReports_passed[where store=store and ip=ip, OF assms False]
    by (cases "createReportSchema uri b") (simp_all add: reply_def createReport_not_429)
  then show ?thesis using False by simp
qed

lemma postReports_campuses:
  "fst (postReports uri e ip u b now (store, w\<lparr>campuses := cs\<rparr>)) =
   fst (postReports uri e ip u b now (store, w))"
proof -
  have c: "fst (createReport e u b' now (w\<lparr>campuses := cs\<rparr>)) = fst (createReport e u b' now w)" for b'
    by (cases "cb_location b'") (simp_all add: createReport_def Let_def failed_def)
  show ?thesis
  proof (cases "isVerified u")
    case False
    then show ?thesis by (simp add: postReports_unverified)
  next
    case True
    show ?thesis
    proof (cases "reportLimiterMax e < int (Suc (fst (liveWindow (60 * 60 * 1000) ip now store)))")
      case lim: True
      have "fst (postReports uri e ip u b now (store, w')) =
            reply 429 False ''You have reached the maximum number of reports per hour. Please try again later.''" for w'
        using True lim
        by (cases "liveWindow (60 * 60 * 1000) ip now store")
           (simp add: postReports_def requireVerifiedEmail_def rateLimit_def Let_def)
      then show ?thesis by simp
    next
      case False
      show ?thesis
        unfolding postReports_passed[where store=store and ip=ip, OF True False]
        by (cases "createReportSchema uri b") (simp_all add: c)
    qed
  qed
qed

lemma upt_0_Suc: "[0..<Suc m] = 0 # map Suc [0..<m]"
  by (subst upt_conv_Cons) (simp_all add: map_Suc_upt del: upt_Suc)

lemma postAll_window:
  assumes "isVerified u" and "store ip = Some (n, reset)" and "\<forall>t \<in> set ts. t < reset"
  shows "map (\<lambda>r. code r = 429) (postAll uri e ip u b ts (store, w)) =
         map (\<lambda>k. reportLimiterMax e < int (n + Suc k)) [0..<length ts]"
  using assms(2,3)
proof (induction ts arbitrary: store w n)
  case Nil
  then show ?case by simp
next
  case (Cons t ts)
  obtain r store' w' where p: "postReports uri e ip u b t (store, w) = (r, store', w')"
    by (cases "postReports uri e ip u b t (store, w)") auto
  have lw: "liveWindow (60 * 60 * 1000) ip t store = (n, reset)"
    using Cons.prems by (simp add: liveWindow_def)
  have s: "store' ip = Some (Suc n, reset)"
    using postReports_store[OF assms(1), of uri e ip b t store w] p lw by simp
  have c: "code r = 429 \<longleftrightarrow> reportLimiterMax e < int (n + Suc 0)"
    using postReports_429_iff[OF assms(1), of uri e ip b t store w] p lw by simp
  have tl: "map (\<lambda>r. code r = 429) (postAll uri e ip u b ts (store', w')) =
         map (\<lambda>k. reportLimiterMax e < int (Suc n + Suc k)) [0..<length ts]"
    using Cons.IH[where store=store' and n="Suc n", OF s] Cons.prems(2) by simp
  have l: "length (t # ts) = Suc (length ts)" by simp
  show ?case
    unfolding l upt_0_Suc using p c tl by (simp add: comp_def del: upt_Suc)
qed

lemma postAll_fresh:
  assumes "isVerified u" and "store ip = None" and "\<forall>t \<in> set ts. t < t1 + 60 * 60 * 1000"
  shows "map (\<lambda>r. code r = 429) (postAll uri e ip u b (t1 # ts) (store, w)) =
         map (\<lambda>k. reportLimiterMax e < int (Suc k)) [0..<Suc (length ts)]"
proof -
  obtain r store' w' where p: "postReports uri e ip u b t1 (store, w) = (r, store', w')"
    by (cases "postReports uri e ip u b t1 (store, w)") auto
  have lw: "liveWindow (60 * 60 * 1000) ip t1 store = (0, t1 + 60 * 60 * 1000)"
    using assms(2) by (simp add: liveWindow_def)
  have s: "store' ip = Some (Suc 0, t1 + 60 * 60 * 1000)"
    using postReports_store[OF assms(1), of uri e ip b t1 store w] p lw by simp
  have c: "code r = 429 \<longleftrightarrow> reportLimiterMax e < int (Suc 0)"
    using postReports_429_iff[OF assms(1), of uri e ip b t1 store w] p lw by simp
  have tl: "map (\<lambda>r. code r = 429) (postAll uri e ip u b ts (store', w')) =
         map (\<lambda>k. reportLimiterMax e < int (Suc 0 + Suc k)) [0..<length ts]"
    by (rule postAll_window[where store=store' and ip=ip, OF assms(1) s assms(3)])
  show ?thesis
    unfolding upt_0_Suc using p c tl by (simp add: comp_def del: upt_Suc)
qed

text \<open>
  Claim C9, amended. \<open>POST /reports\<close> refuses an unverified user with 403 before
  anything else, the limiter untouched. Every request of a verified user raises the
  counter of its client address, in the window that is open for that address or, when
  there is none or it has ended, in a new window of one hour from the request; the
  answer is 429 exactly when the raised counter is above the limiter's maximum, and
  then nothing is stored. So of the requests that one address sends within an hour of
  its first, the k-th is refused exactly when k is above the maximum. The maximum is
  fixed server-wide: 100 in development mode, otherwise the configured
  \<open>reportsPerHour\<close> of the environment, 5 when that is \<open>NaN\<close> or 0. The campus
  collection, and with it every campus setting, has no influence on the answer.
\<close>

theorem postReports_verified_and_limit:
  "(\<not> isVerified u \<longrightarrow>
      postReports uri e ip u b now (store, w) =
        (reply 403 False ''Email verification required'', store, w)) \<and>
   (isVerified u \<longrightarrow>
      fst (snd (postReports uri e ip u b now (store, w))) =
        store(ip \<mapsto> (Suc (fst (liveWindow (60 * 60 * 1000) ip now store)),
                       snd (liveWindow (60 * 60 * 1000) ip now store))) \<and>
      (code (fst (postReports uri e ip u b now (store, w))) = 429 \<longleftrightarrow>
         reportLimiterMax e < int (Suc (fst (liveWindow (60 * 60 * 1000) ip now store)))) \<and>
      (reportLimiterMax e < int (Suc (fst (liveWindow (60 * 60 * 1000) ip now store))) \<longrightarrow>
         snd (snd (postReports uri e ip u b now (store, w))) = w)) \<and>
   liveWindow (60 * 60 * 1000) ip now store =
     (case store ip of
        None \<Rightarrow> (0, now + 3600000)
      | Some (n, reset) \<Rightarrow> if reset \<le> now then (0, now + 3600000) else (n, reset)) \<and>
   (isVerified u \<and> store ip = None \<and> (\<forall>t \<in> set ts. t < t1 + 3600000) \<longrightarrow>
      map (\<lambda>r. code r = 429) (postAll uri e ip u b (t1 # ts) (store, w)) =
        map (\<lambda>k. reportLimiterMax e < int (Suc k)) [0..<Suc (length ts)]) \<and>
   reportLimiterMax e =
     (if nodeEnv e = ''development'' then 100
      else if rateLimit_reportsPerHour e = None \<or> rateLimit_reportsPerHour e = Some 0 then 5
      else the (rateLimit_reportsPerHour e)) \<and>
   fst (postReports uri e ip u b now (store, w\<lparr>campuses := cs\<rparr>)) =
     fst (postReports uri e ip u b now (store, w))"
proof (intro conjI impI)
  show "reportLimiterMax e =
     (if nodeEnv e = ''development'' then 100
      else if rateLimit_reportsPerHour e = None \<or> rateLimit_reportsPerHour e = Some 0 then 5
      else the (rateLimit_reportsPerHour e))"
    by (cases "rateLimit_reportsPerHour e") (simp_all add: reportLimiterMax_def)
  show "postReports uri e ip u b now (store, w) =
        (reply 403 False ''Email verification required'', store, w)" if "\<not> isVerified u"
    using that by (rule postReports_unverified)
  show "fst (snd (postReports uri e ip u b now (store, w))) =
        store(ip \<mapsto> (Suc (fst (liveWindow (60 * 60 * 1000) ip now store)),
                       snd (liveWindow (60 * 60 * 1000) ip now store)))" if "isVerified u"
    using that by (rule postReports_store)
  show "code (fst (postReports uri e ip u b now (store, w))) = 429 \<longleftrightarrow>
         reportLimiterMax e < int (Suc (fst (liveWindow (60 * 60 * 1000) ip now store)))"
    if "isVerified u"
    using that by (rule postReports_429_iff)
  show "snd (snd (postReports uri e ip u b now (store, w))) = w"
    if "isVerified u" "reportLimiterMax e < int (Suc (fst (liveWindow (60 * 60 * 1000) ip now store)))"
    using that by (rule postReports_limited(2))
  show "liveWindow (60 * 60 * 1000) ip now store =
     (case store ip of
        None \<Rightarrow> (0, now + 3600000)
      | Some (n, reset) \<Rightarrow> if reset \<le> now then (0, now + 3600000) else (n, reset))"
    by (simp add: liveWindow_def)
  show "map (\<lambda>r. code r = 429) (postAll uri e ip u b (t1 # ts) (store, w)) =
        map (\<lambda>k. reportLimiterMax e < int (Suc k)) [0..<Suc (length ts)]"
    if "isVerified u \<and> store ip = None \<and> (\<forall>t \<in> set ts. t < t1 + 3600000)"
    using that postAll_fresh[of u store ip ts t1 uri e b w] by simp
  show "fst (postReports uri e ip u b now (store, w\<lparr>campuses := cs\<rparr>)) =
     fst (postReports uri e ip u b now (store, w))"
    by (rule postReports_campuses)
qed

theorem postReports_verified_and_limit_witness:
  "map (\<lambda>r. code r = 429)
     (postAll anyUri productionEnv ''10.0.0.7'' (student 1) sampleBody
        [0, 1000, 2000, 3000, 4000, 5000, 6000] (noWindows, world0)) =
     [False, False, False, False, False, True, True] \<and>
   map code
     (postAll anyUri productionEnv ''10.0.0.7'' (student 1) sampleBody
        [0, 1000, 2000, 3000, 4000, 5000, 6000, 3600000] (noWindows, world0)) =
     [201, 201, 201, 201, 201, 429, 429, 201] \<and>
   code (fst (postReports anyUri productionEnv ''10.0.0.7'' ((student 1)\<lparr>isVerified := False\<rparr>)
           sampleBody 0 (noWindows, world0))) = 403"
proof -
  have v: "isVerified (student 1)" "\<not> isVerified ((student 1)\<lparr>isVerified := False\<rparr>)"
    by (simp_all add: student_def)
  have m: "reportLimiterMax productionEnv = 5"
    by (simp add: reportLimiterMax_def productionEnv_def)
  have s: "noWindows ''10.0.0.7'' = None"
    by (simp add: noWindows_def)
  have ts: "\<forall>t \<in> set [1000, 2000, 3000, 4000, 5000, 6000 :: int]. t < 0 + 3600000"
    by simp
  note a = postReports_verified_and_limit[of "student 1" anyUri productionEnv "''10.0.0.7''"
      sampleBody 0 noWindows world0 "[1000, 2000, 3000, 4000, 5000, 6000]" 0 "[]"]
  note n = postReports_verified_and_limit[of "(student 1)\<lparr>isVerified := False\<rparr>" anyUri
      productionEnv "''10.0.0.7''" sampleBody 0 noWindows world0 "[]" 0 "[]"]
  have u: "[0..<Suc (length [1000, 2000, 3000, 4000, 5000, 6000 :: int])] = [0, 1, 2, 3, 4, 5, 6]"
    by (simp add: upt_conv_Cons)
  from a v(1) s ts
  have "map (\<lambda>r. code r = 429)
     (postAll anyUri productionEnv ''10.0.0.7'' (student 1) sampleBody
        (0 # [1000, 2000, 3000, 4000, 5000, 6000]) (noWindows, world0)) =
        map (\<lambda>k. reportLimiterMax productionEnv < int (Suc k))
          [0..<Suc (length [1000, 2000, 3000, 4000, 5000, 6000 :: int])]"
    by blast
  then have 1: "map (\<lambda>r. code r = 429)
     (postAll anyUri productionEnv ''10.0.0.7'' (student 1) sampleBody
        [0, 1000, 2000, 3000, 4000, 5000, 6000] (noWindows, world0)) =
     [False, False, False, False, False, True, True]"
    unfolding u m by simp
  have 2: "map code
     (postAll anyUri productionEnv ''10.0.0.7'' (student 1) sampleBody
        [0, 1000, 2000, 3000, 4000, 5000, 6000, 3600000] (noWindows, world0)) =
     [201, 201, 201, 201, 201, 429, 429, 201]"
    by code_simp
  have 3: "code (fst (postReports anyUri productionEnv ''10.0.0.7'' ((student 1)\<lparr>isVerified := False\<rparr>)
           sampleBody 0 (noWindows, world0))) = 403"
    using conjunct1[OF n] v(2) by (simp add: reply_def)
  show ?thesis by (intro conjI 1 2 3)
qed

text \<open>
  Claim C9, as stated, fails: the user's campus sets \<open>reportsPerHour = 1\<close>, yet in
  production mode the second request within two seconds is accepted; and with no
  environment variable set (development mode) six requests in a row are all
  accepted.
\<close>

theorem postReports_limit_counterexample:
  "isVerified (student 1) \<and> campuses world0 = [campusA] \<and> cid campusA = u_campusId (student 1) \<and>
   reportsPerHour campusA = 1 \<and>
   map code (postAll anyUri productionEnv ''10.0.0.7'' (student 1) sampleBody [0, 1000]
      (noWindows, world0)) = [201, 201] \<and>
   map code (postAll anyUri defaultEnv ''10.0.0.7'' (student 1) sampleBody
      [0, 1000, 2000, 3000, 4000, 5000] (noWindows, world0)) = [201, 201, 201, 201, 201, 201]"
  by code_simp

end
